theory Spec2Isabelle
  imports Main "HOL-Library.Sublist"
begin

section \<open>JavaScript strings\<close>

text \<open>
  Strings are lists of 8-bit characters, read as the code units U+0000 to U+00FF; code
  units beyond U+00FF are outside the model. \<open>jsIncludes\<close> is
  \<^verbatim>\<open>String.prototype.includes\<close>. \<open>trim\<close> is \<^verbatim>\<open>String.prototype.trim\<close>, which strips
  white space and line terminators from both ends: among these code units they are tab,
  LF, VT, FF, CR, space and the no-break space U+00A0.
\<close>

fun jsIncludes :: "string \<Rightarrow> string \<Rightarrow> bool" where
  "jsIncludes [] sub = (sub = [])"
| "jsIncludes (c # cs) sub = (prefix sub (c # cs) \<or> jsIncludes cs sub)"

definition isWhiteSpace :: "char \<Rightarrow> bool" where
  "isWhiteSpace c =
     (c = CHR 0x09 \<or> c = CHR 0x0A \<or> c = CHR 0x0B \<or> c = CHR 0x0C \<or> c = CHR 0x0D
      \<or> c = CHR 0x20 \<or> c = CHR 0xA0)"

definition trim :: "string \<Rightarrow> string" where
  "trim s = rev (dropWhile isWhiteSpace (rev (dropWhile isWhiteSpace s)))"

text \<open>A template literal renders an undefined value as the text \<^verbatim>\<open>undefined\<close>.\<close>

definition template :: "string option \<Rightarrow> string" where
  "template v = (case v of None \<Rightarrow> ''undefined'' | Some s \<Rightarrow> s)"

section \<open>The generation service (geminiService)\<close>

subsection \<open>Wire types of the upstream API\<close>

text \<open>
  The types of \<^verbatim>\<open>@google/genai\<close> that the service touches. Every field of \<^verbatim>\<open>Blob\<close> and
  \<^verbatim>\<open>Part\<close> is optional there; \<open>None\<close> is \<^verbatim>\<open>undefined\<close>. \<open>response_text\<close> is the
  getter \<^verbatim>\<open>response.text\<close>, which the library computes.
\<close>

record Blob =
  mimeType :: "string option"
  data :: "string option"

record Part =
  inlineData :: "Blob option"
  "text" :: "string option"

record Content =
  parts :: "Part list option"

record Candidate =
  content :: "Content option"

record GenerateContentResponse =
  candidates :: "Candidate list option"
  response_text :: "string option"

datatype Modality = IMAGE | TEXT

record GenerateContentParameters =
  model :: string
  contents :: "Part list"
  responseModalities :: "Modality list"

text \<open>
  A thrown value is an \<^verbatim>\<open>Error\<close> object with its message, or any other value, kept as
  the text \<^verbatim>\<open>JSON.stringify\<close> gives for it.
\<close>

datatype thrown = JsError (message: string) | JsValue (stringify: string)

definition errorMessageOf :: "thrown \<Rightarrow> string" where
  "errorMessageOf error = (case error of JsError m \<Rightarrow> m | JsValue j \<Rightarrow> j)"

text \<open>
  The upstream service is outside the program: \<open>ai attempt request\<close> is what the
  \<open>attempt\<close>-th call of one generation answers, a response or a thrown value.
  What a call of the service does to the world is recorded as a list of effects.
\<close>

type_synonym upstream = "nat \<Rightarrow> GenerateContentParameters \<Rightarrow> thrown + GenerateContentResponse"

datatype effect = ApiCall GenerateContentParameters | Delay nat

subsection \<open>dataUrlToGeminiPart\<close>

text \<open>
  The regular expression \<^verbatim>\<open>/^data:(image\/\w+);base64,(.*)$/\<close>, matched from the left:
  the literal \<^verbatim>\<open>data:image/\<close>, the longest run of word characters (it must be followed
  by \<^verbatim>\<open>;\<close>, which is no word character, so no shorter run can match), which \<^verbatim>\<open>+\<close>
  wants non-empty, the literal \<^verbatim>\<open>;base64,\<close>, and the rest up to the end of the input,
  where \<^verbatim>\<open>.\<close> takes any character except a line terminator.
\<close>

definition isWordChar :: "char \<Rightarrow> bool" where
  "isWordChar c =
     (let n = (of_char c :: nat)
      in (48 \<le> n \<and> n \<le> 57) \<or> (65 \<le> n \<and> n \<le> 90) \<or> (97 \<le> n \<and> n \<le> 122) \<or> n = 95)"

definition isLineTerminator :: "char \<Rightarrow> bool" where
  "isLineTerminator c = (c = CHR 0x0A \<or> c = CHR 0x0D)"

fun stripPrefix :: "string \<Rightarrow> string \<Rightarrow> string option" where
  "stripPrefix [] s = Some s"
| "stripPrefix (p # ps) [] = None"
| "stripPrefix (p # ps) (c # cs) = (if p = c then stripPrefix ps cs else None)"

definition matchDataUrl :: "string \<Rightarrow> (string \<times> string) option" where
  "matchDataUrl dataUrl =
     (case stripPrefix ''data:image/'' dataUrl of
        None \<Rightarrow> None
      | Some rest \<Rightarrow>
          (let subtype = takeWhile isWordChar rest
           in if subtype = [] then None
              else (case stripPrefix '';base64,'' (dropWhile isWordChar rest) of
                      None \<Rightarrow> None
                    | Some base64Data \<Rightarrow>
                        if list_ex isLineTerminator base64Data then None
                        else Some (''image/'' @ subtype, base64Data))))"

definition invalidDataUrl :: string where
  "invalidDataUrl =
     ''Invalid image data URL format. Expected 'data:image/...;base64,...'' @ [CHR 0x27]"

definition dataUrlToGeminiPart :: "string \<Rightarrow> thrown + Part" where
  "dataUrlToGeminiPart dataUrl =
     (case matchDataUrl dataUrl of
        None \<Rightarrow> Inl (JsError invalidDataUrl)
      | Some (mime, base64Data) \<Rightarrow>
          Inr \<lparr>inlineData = Some \<lparr>mimeType = Some mime, data = Some base64Data\<rparr>,
               text = None\<rparr>)"

subsection \<open>processGeminiResponse\<close>

definition firstCandidateParts :: "GenerateContentResponse \<Rightarrow> Part list option" where
  \<comment> \<open>\<^verbatim>\<open>response.candidates?.[0]?.content?.parts\<close>\<close>
  "firstCandidateParts response =
     (case candidates response of
        None \<Rightarrow> None
      | Some [] \<Rightarrow> None
      | Some (c # _) \<Rightarrow> (case content c of None \<Rightarrow> None | Some ct \<Rightarrow> parts ct))"

definition imagePartFromResponse :: "GenerateContentResponse \<Rightarrow> Part option" where
  "imagePartFromResponse response =
     (case firstCandidateParts response of
        None \<Rightarrow> None
      | Some ps \<Rightarrow> find (\<lambda>part. inlineData part \<noteq> None) ps)"

definition respondedWithText :: "string option \<Rightarrow> string" where
  "respondedWithText textResponse =
     ''The AI model responded with text instead of an image: '' @ [CHR 0x22]
       @ (case textResponse of
            None \<Rightarrow> ''No text response received.''
          | Some t \<Rightarrow> if t = [] then ''No text response received.'' else t)
       @ [CHR 0x22]"

definition processGeminiResponse :: "GenerateContentResponse \<Rightarrow> thrown + string" where
  "processGeminiResponse response =
     (case Option.bind (imagePartFromResponse response) inlineData of
        Some b \<Rightarrow> Inr (''data:'' @ template (mimeType b) @ '';base64,'' @ template (data b))
      | None \<Rightarrow> Inl (JsError (respondedWithText (response_text response))))"

subsection \<open>callGeminiWithRetry\<close>

definition maxRetries :: nat where
  "maxRetries = 3"

definition initialDelay :: nat where
  "initialDelay = 1000"

definition isRetriableError :: "string \<Rightarrow> bool" where
  \<open>isRetriableError errorMessage =
     (jsIncludes errorMessage ''"code":500'' \<or> jsIncludes errorMessage ''INTERNAL''
      \<or> jsIncludes errorMessage ''503'')\<close>

definition generateContentRequest :: "Part list \<Rightarrow> GenerateContentParameters" where
  "generateContentRequest ps =
     \<lparr>model = ''gemini-2.5-flash-image-preview'', contents = ps,
      responseModalities = [IMAGE, TEXT]\<rparr>"

text \<open>
  The \<^verbatim>\<open>for\<close> loop over the attempts, entered at \<open>attempt\<close>. The last branch is the
  statement after the loop.
\<close>

function callGeminiWithRetryFrom ::
  "upstream \<Rightarrow> Part list \<Rightarrow> nat \<Rightarrow> (thrown + GenerateContentResponse) \<times> effect list" where
  "callGeminiWithRetryFrom ai ps attempt =
     (if attempt \<le> maxRetries then
        (case ai attempt (generateContentRequest ps) of
           Inr response \<Rightarrow> (Inr response, [ApiCall (generateContentRequest ps)])
         | Inl error \<Rightarrow>
             if isRetriableError (errorMessageOf error) \<and> attempt < maxRetries then
               (let delay = initialDelay * 2 ^ (attempt - 1);
                    later = callGeminiWithRetryFrom ai ps (attempt + 1)
                in (fst later, ApiCall (generateContentRequest ps) # Delay delay # snd later))
             else (Inl error, [ApiCall (generateContentRequest ps)]))
      else (Inl (JsError ''Gemini API call failed after all retries.''), []))"
  by pat_completeness auto
termination
  by (relation "measure (\<lambda>(ai, ps, attempt). maxRetries + 1 - attempt)") auto

declare callGeminiWithRetryFrom.simps [simp del]

definition callGeminiWithRetry ::
  "upstream \<Rightarrow> Part list \<Rightarrow> (thrown + GenerateContentResponse) \<times> effect list" where
  "callGeminiWithRetry ai ps = callGeminiWithRetryFrom ai ps 1"

subsection \<open>generateVibeBasedImage\<close>

definition basePrompt :: string where
  "basePrompt =
     ''You are provided with several photos of the same person to understand their appearance from multiple angles. You are also provided with several ''
     @ [CHR 0x22] @ ''vibe'' @ [CHR 0x22] @ '' inspiration images.'' @ [CHR 0x0A]
     @ ''Your task is to create a new, photorealistic image of the person from the main photos, but imbued with the aesthetic, color palette, lighting, composition, and overall vibe from the inspiration images.''
     @ [CHR 0x0A, CHR 0x0A]
     @ ''Key instructions:'' @ [CHR 0x0A]
     @ ''1. Accurately represent the person from the main photos. They must be clearly recognizable.''
     @ [CHR 0x0A]
     @ ''2. Perfectly blend the style of the inspiration photos with the person.'' @ [CHR 0x0A]
     @ ''3. Choose the best pose or angle from the provided main photos as a base for the new image, but you can subtly adjust it to better fit the new style.''
     @ [CHR 0x0A]
     @ ''4. The final output must be only the image.''"

definition userInstructions :: "string \<Rightarrow> string" where
  "userInstructions userPrompt =
     [CHR 0x0A, CHR 0x0A]
     @ ''Additionally, follow these user-provided instructions carefully: '' @ trim userPrompt"

definition textPrompt :: "string \<Rightarrow> string" where
  "textPrompt userPrompt =
     (if userPrompt \<noteq> [] \<and> trim userPrompt \<noteq> [] then basePrompt @ userInstructions userPrompt
      else basePrompt)"

text \<open>\<^verbatim>\<open>Array.prototype.map\<close> with a callback that may throw: the first throw ends it.\<close>

fun mapOrThrow :: "('a \<Rightarrow> thrown + 'b) \<Rightarrow> 'a list \<Rightarrow> thrown + 'b list" where
  "mapOrThrow f [] = Inr []"
| "mapOrThrow f (x # xs) =
     (case f x of
        Inl e \<Rightarrow> Inl e
      | Inr y \<Rightarrow> (case mapOrThrow f xs of Inl e \<Rightarrow> Inl e | Inr ys \<Rightarrow> Inr (y # ys)))"

definition allParts :: "string list \<Rightarrow> string list \<Rightarrow> string \<Rightarrow> thrown + Part list" where
  "allParts mainImageDataUrls inspirationDataUrls userPrompt =
     (case mapOrThrow dataUrlToGeminiPart mainImageDataUrls of
        Inl e \<Rightarrow> Inl e
      | Inr mainImageParts \<Rightarrow>
          (case mapOrThrow dataUrlToGeminiPart inspirationDataUrls of
             Inl e \<Rightarrow> Inl e
           | Inr inspirationImageParts \<Rightarrow>
               Inr (mainImageParts @ inspirationImageParts
                    @ [\<lparr>inlineData = None, text = Some (textPrompt userPrompt)\<rparr>])))"

text \<open>The body of the \<^verbatim>\<open>try\<close> block.\<close>

definition tryGenerate ::
  "upstream \<Rightarrow> string list \<Rightarrow> string list \<Rightarrow> string \<Rightarrow> (thrown + string) \<times> effect list" where
  "tryGenerate ai mainImageDataUrls inspirationDataUrls userPrompt =
     (case allParts mainImageDataUrls inspirationDataUrls userPrompt of
        Inl e \<Rightarrow> (Inl e, [])
      | Inr ps \<Rightarrow>
          (case callGeminiWithRetry ai ps of
             (Inl e, effects) \<Rightarrow> (Inl e, effects)
           | (Inr response, effects) \<Rightarrow> (processGeminiResponse response, effects)))"

definition couldNotGenerate :: string where
  "couldNotGenerate =
     ''The model couldn't generate an image with this vibe. It might be too complex.''"

definition failedToGenerate :: "string \<Rightarrow> string" where
  "failedToGenerate errorMessage =
     ''The AI model failed to generate an image. Details: '' @ errorMessage"

text \<open>The \<^verbatim>\<open>catch\<close> block.\<close>

definition rethrow :: "thrown \<Rightarrow> thrown" where
  "rethrow error =
     (let errorMessage = errorMessageOf error
      in if jsIncludes errorMessage ''The AI model responded with text''
         then JsError couldNotGenerate
         else JsError (failedToGenerate errorMessage))"

definition generateVibeBasedImage ::
  "upstream \<Rightarrow> string list \<Rightarrow> string list \<Rightarrow> string \<Rightarrow> (thrown + string) \<times> effect list" where
  "generateVibeBasedImage ai mainImageDataUrls inspirationDataUrls userPrompt =
     (case tryGenerate ai mainImageDataUrls inspirationDataUrls userPrompt of
        (Inr resultUrl, effects) \<Rightarrow> (Inr resultUrl, effects)
      | (Inl error, effects) \<Rightarrow> (Inl (rethrow error), effects))"

subsection \<open>Reading the recorded effects\<close>

text \<open>Every delay is followed at once by an upstream call: none ends the list.\<close>

fun delaysBeforeCalls :: "effect list \<Rightarrow> bool" where
  "delaysBeforeCalls [] = True"
| "delaysBeforeCalls (ApiCall r # es) = delaysBeforeCalls es"
| "delaysBeforeCalls (Delay d # es) =
     (case es of ApiCall r # _ \<Rightarrow> delaysBeforeCalls es | _ \<Rightarrow> False)"

fun isApiCall :: "effect \<Rightarrow> bool" where
  "isApiCall (ApiCall r) = True"
| "isApiCall (Delay d) = False"

subsection \<open>Sample inputs\<close>

definition exSubject :: string where
  "exSubject = ''data:image/jpeg;base64,AAAA''"

definition exStyle :: string where
  "exStyle = ''data:image/png;base64,BBBB''"

definition exResponse :: GenerateContentResponse where
  "exResponse =
     \<lparr>candidates = Some [\<lparr>content = Some \<lparr>parts = Some
        [\<lparr>inlineData = None, text = Some ''Here you go''\<rparr>,
         \<lparr>inlineData = Some \<lparr>mimeType = Some ''image/png'', data = Some ''CCCC''\<rparr>,
          text = None\<rparr>]\<rparr>\<rparr>],
      response_text = Some ''Here you go''\<rparr>"

text \<open>What the two sample images and an empty instruction are encoded to.\<close>

definition exParts :: "Part list" where
  "exParts =
     [\<lparr>inlineData = Some \<lparr>mimeType = Some ''image/jpeg'', data = Some ''AAAA''\<rparr>, text = None\<rparr>,
      \<lparr>inlineData = Some \<lparr>mimeType = Some ''image/png'', data = Some ''BBBB''\<rparr>, text = None\<rparr>,
      \<lparr>inlineData = None, text = Some basePrompt\<rparr>]"

text \<open>
  Upstream behaviours: two overloads then an image; overloaded for good; a server fault
  whose message repeats the wording of the service's own failure; a rejected key; a reply
  of text alone.
\<close>

definition exFlaky :: upstream where
  "exFlaky attempt request =
     (if attempt < 3 then Inl (JsError ''503 Service Unavailable'') else Inr exResponse)"

definition exOverloaded :: upstream where
  "exOverloaded attempt request = Inl (JsError ''503 Service Unavailable'')"

definition exCollision :: upstream where
  "exCollision attempt request =
     Inl (JsError ''INTERNAL: The AI model responded with text'')"

definition exDenied :: upstream where
  "exDenied attempt request = Inl (JsError ''API key not valid'')"

definition exTextOnly :: GenerateContentResponse where
  "exTextOnly =
     \<lparr>candidates = Some [\<lparr>content = Some \<lparr>parts = Some
        [\<lparr>inlineData = None, text = Some ''I cannot draw that''\<rparr>]\<rparr>\<rparr>],
      response_text = Some ''I cannot draw that''\<rparr>"

definition exChatty :: upstream where
  "exChatty attempt request = Inr exTextOnly"

subsection \<open>The embedded-data format in words\<close>

text \<open>
  The format the encoder is specified to accept, stated on its own: \<^verbatim>\<open>data:image/\<close>, a
  non-empty subtype of word characters, \<^verbatim>\<open>;base64,\<close>, and a payload on one line. The
  base64 alphabet is the letters, the digits, \<^verbatim>\<open>+\<close>, \<^verbatim>\<open>/\<close> and the padding \<^verbatim>\<open>=\<close>.
\<close>

definition dataImageFormat :: "string \<Rightarrow> bool" where
  "dataImageFormat dataUrl =
     (\<exists>subtype payload.
        dataUrl = ''data:image/'' @ subtype @ '';base64,'' @ payload
        \<and> subtype \<noteq> [] \<and> list_all isWordChar subtype
        \<and> \<not> list_ex isLineTerminator payload)"

definition isBase64Char :: "char \<Rightarrow> bool" where
  "isBase64Char c =
     (let n = (of_char c :: nat)
      in (48 \<le> n \<and> n \<le> 57) \<or> (65 \<le> n \<and> n \<le> 90) \<or> (97 \<le> n \<and> n \<le> 122)
         \<or> c = CHR ''+'' \<or> c = CHR ''/'' \<or> c = CHR ''='')"

definition exMalformed :: string where
  "exMalformed = ''data:text/plain;base64,AAAA''"

section \<open>The slot orchestrator (AppContent)\<close>

subsection \<open>State\<close>

datatype ImageStatus = Pending | Done | Error

record GeneratedImage =
  status :: ImageStatus
  url :: "string option"
  error :: "string option"

datatype AppState = Idle | PhotosUploaded | Generating | ResultsShown

text \<open>
  A call of \<open>generateVibeBasedImage\<close> that has been issued and has not settled yet: the
  handler that awaits it (the batch of one click on generate, numbered, or one
  regeneration), the slot its result is written to, and the arguments it was given.
\<close>

datatype caller = Batch nat | Regeneration

record call =
  caller :: caller
  slot :: nat
  subjects :: "string list"
  styles :: "string list"
  instructions :: string

text \<open>
  The React state of the component that the handlers read and write, with the calls in
  flight and the number of batches started so far. A state update takes effect at once.
  An array is a list of optional elements, \<open>None\<close> for an index that holds nothing.
\<close>

record app =
  uploadedImages :: "string list"
  inspirationImages :: "string list"
  userPrompt :: string
  generatedImages :: "GeneratedImage option list"
  appState :: AppState
  generationCount :: nat
  inFlight :: "call list"
  batches :: nat

definition arrayGet :: "'a option list \<Rightarrow> nat \<Rightarrow> 'a option" where
  \<comment> \<open>\<^verbatim>\<open>xs[i]\<close>, which is \<^verbatim>\<open>undefined\<close> out of range\<close>
  "arrayGet xs i = (if i < length xs then xs ! i else None)"

definition arraySet :: "'a option list \<Rightarrow> nat \<Rightarrow> 'a \<Rightarrow> 'a option list" where
  \<comment> \<open>\<^verbatim>\<open>const ys = [...xs]; ys[i] = v\<close>, which extends the array out of range\<close>
  "arraySet xs i v =
     (if i < length xs then xs[i := Some v]
      else xs @ replicate (i - length xs) None @ [Some v])"

definition pendingImage :: GeneratedImage where
  "pendingImage = \<lparr>status = Pending, url = None, error = None\<rparr>"

subsection \<open>handleGenerateClick\<close>

text \<open>
  Up to the \<^verbatim>\<open>await\<close>: the guard, the initial slots, and one call per slot, all issued
  before any of them is awaited. \<^verbatim>\<open>Promise.all\<close> of no promise resolves at once.
\<close>

definition handleGenerateClick :: "app \<Rightarrow> app" where
  "handleGenerateClick st =
     (if uploadedImages st = [] \<or> inspirationImages st = [] then st
      else
        (let initialImages = replicate (generationCount st) (Some pendingImage);
             generationPromises =
               map (\<lambda>index. \<lparr>caller = Batch (batches st), slot = index,
                               subjects = uploadedImages st, styles = inspirationImages st,
                               instructions = userPrompt st\<rparr>)
                 [0 ..< generationCount st];
             st' = st\<lparr>appState := Generating, generatedImages := initialImages,
                      inFlight := inFlight st @ generationPromises,
                      batches := batches st + 1\<rparr>
         in if generationPromises = [] then st'\<lparr>appState := ResultsShown\<rparr> else st'))"

subsection \<open>handleRegenerateSlot\<close>

text \<open>Up to the \<^verbatim>\<open>await\<close>: the two guards, the slot set to pending, and the call.\<close>

definition handleRegenerateSlot :: "app \<Rightarrow> nat \<Rightarrow> app" where
  "handleRegenerateSlot st index =
     (if uploadedImages st = [] \<or> inspirationImages st = [] then st
      else if map_option status (arrayGet (generatedImages st) index) = Some Pending then st
      else st\<lparr>generatedImages := arraySet (generatedImages st) index pendingImage,
              inFlight := inFlight st
                @ [\<lparr>caller = Regeneration, slot = index,
                     subjects = uploadedImages st, styles = inspirationImages st,
                     instructions = userPrompt st\<rparr>]\<rparr>)"

subsection \<open>handleCropConfirm\<close>

text \<open>
  The crop dialog is confirmed: the cropped image, a data URL made by the canvas, is added
  to the subjects or to the styles, as the head of the crop queue says. The queue and the
  canvas are left out; their two values are parameters.
\<close>

datatype ImageType = Main | Inspiration

definition handleCropConfirm :: "app \<Rightarrow> ImageType \<Rightarrow> string \<Rightarrow> app" where
  "handleCropConfirm st type croppedDataUrl =
     (case type of
        Main \<Rightarrow>
          st\<lparr>uploadedImages := uploadedImages st @ [croppedDataUrl], appState := PhotosUploaded\<rparr>
      | Inspiration \<Rightarrow>
          st\<lparr>inspirationImages := inspirationImages st @ [croppedDataUrl],
             appState := PhotosUploaded\<rparr>)"

subsection \<open>handleReset\<close>

definition handleReset :: "app \<Rightarrow> app" where
  "handleReset st =
     st\<lparr>uploadedImages := [], inspirationImages := [], generatedImages := [],
        userPrompt := [], appState := Idle\<rparr>"

subsection \<open>A call settles\<close>

text \<open>
  The message both handlers take from what \<open>generateVibeBasedImage\<close> threw, and the slot
  value they make of its outcome.
\<close>

definition caughtMessage :: "thrown \<Rightarrow> string" where
  "caughtMessage err =
     (case err of JsError m \<Rightarrow> m | JsValue j \<Rightarrow> ''An unknown error occurred.'')"

definition slotResult :: "thrown + string \<Rightarrow> GeneratedImage" where
  "slotResult outcome =
     (case outcome of
        Inr resultUrl \<Rightarrow> \<lparr>status = Done, url = Some resultUrl, error = None\<rparr>
      | Inl err \<Rightarrow> \<lparr>status = Error, url = None, error = Some (caughtMessage err)\<rparr>)"

definition removeAt :: "nat \<Rightarrow> 'a list \<Rightarrow> 'a list" where
  "removeAt k xs = take k xs @ drop (Suc k) xs"

text \<open>
  The \<open>k\<close>-th call in flight settles, the upstream having behaved as \<open>ai\<close> for it: the
  continuation of its handler writes the slot. For a call of a batch, \<^verbatim>\<open>Promise.all\<close>
  resolves, and the results are shown, once no call of that batch is left in flight.
\<close>

definition settle :: "app \<Rightarrow> nat \<Rightarrow> upstream \<Rightarrow> app" where
  "settle st k ai =
     (let c = inFlight st ! k;
          outcome = fst (generateVibeBasedImage ai (subjects c) (styles c) (instructions c));
          rest = removeAt k (inFlight st);
          st' = st\<lparr>generatedImages := arraySet (generatedImages st) (slot c) (slotResult outcome),
                   inFlight := rest\<rparr>
      in case caller c of
           Regeneration \<Rightarrow> st'
         | Batch b \<Rightarrow>
             if list_ex (\<lambda>c'. caller c' = Batch b) rest then st'
             else st'\<lparr>appState := ResultsShown\<rparr>)"

subsection \<open>Runs of one slot collection\<close>

text \<open>
  What happens to a slot collection between its creation and its disposal: a call in
  flight settles, or the regeneration of a slot that the collection has is asked for.
\<close>

datatype event = Settle nat upstream | RegenerateSlot nat

fun step :: "app \<Rightarrow> event \<Rightarrow> app option" where
  "step st (Settle k ai) = (if k < length (inFlight st) then Some (settle st k ai) else None)"
| "step st (RegenerateSlot index) =
     (if index < length (generatedImages st) then Some (handleRegenerateSlot st index)
      else None)"

fun run :: "app \<Rightarrow> event list \<Rightarrow> app option" where
  "run st [] = Some st"
| "run st (e # es) = (case step st e of None \<Rightarrow> None | Some st' \<Rightarrow> run st' es)"

definition statusAt :: "app \<Rightarrow> nat \<Rightarrow> ImageStatus option" where
  "statusAt st i = map_option status (arrayGet (generatedImages st) i)"

fun isSettle :: "event \<Rightarrow> bool" where
  "isSettle (Settle k ai) = True"
| "isSettle (RegenerateSlot index) = False"

text \<open>
  The moves of slot \<open>i\<close> that one event may make: none, from pending to done or error
  when a call settles, from done or error to pending when its regeneration is asked for.
\<close>

definition slotMove :: "event \<Rightarrow> nat \<Rightarrow> app \<Rightarrow> app \<Rightarrow> bool" where
  "slotMove e i st st' =
     (arrayGet (generatedImages st') i = arrayGet (generatedImages st) i
      \<or> (isSettle e \<and> statusAt st i = Some Pending
          \<and> (statusAt st' i = Some Done \<or> statusAt st' i = Some Error))
      \<or> (e = RegenerateSlot i \<and> (statusAt st i = Some Done \<or> statusAt st i = Some Error)
          \<and> statusAt st' i = Some Pending))"

subsection \<open>The invariant of a slot collection\<close>

text \<open>
  What holds of a collection of \<open>n\<close> slots started as batch \<open>b\<close>, as long as it lives:
  the inputs are there, there are \<open>n\<close> slots and each holds a value, a slot is pending
  exactly when a call for it is in flight, no two calls in flight are for one slot, every
  call in flight is of this batch or a regeneration, and the results are shown exactly when
  no call of the batch is in flight.
\<close>

definition lifetime :: "nat \<Rightarrow> nat \<Rightarrow> app \<Rightarrow> bool" where
  "lifetime n b st \<longleftrightarrow>
     uploadedImages st \<noteq> [] \<and> inspirationImages st \<noteq> []
     \<and> length (generatedImages st) = n
     \<and> (\<forall>i<n. \<exists>img. generatedImages st ! i = Some img
            \<and> (status img = Pending \<longleftrightarrow> i \<in> slot ` set (inFlight st)))
     \<and> (\<forall>c\<in>set (inFlight st). slot c < n \<and> (caller c = Batch b \<or> caller c = Regeneration))
     \<and> distinct (map slot (inFlight st))
     \<and> appState st = (if list_ex (\<lambda>c. caller c = Batch b) (inFlight st) then Generating
                       else ResultsShown)"

subsection \<open>Sample states\<close>

text \<open>
  Before the click on generate, with one subject, one style and two images asked for;
  results shown with a done and a failed slot; and results shown after the subjects were
  removed.
\<close>

definition exReady :: app where
  "exReady =
     \<lparr>uploadedImages = [exSubject], inspirationImages = [exStyle], userPrompt = [],
      generatedImages = [], appState = PhotosUploaded, generationCount = 2, inFlight = [],
      batches = 0\<rparr>"

definition exShown :: app where
  "exShown =
     \<lparr>uploadedImages = [exSubject], inspirationImages = [exStyle], userPrompt = [],
      generatedImages =
        [Some \<lparr>status = Done, url = Some ''data:image/png;base64,CCCC'', error = None\<rparr>,
         Some \<lparr>status = Error, url = None, error = Some couldNotGenerate\<rparr>],
      appState = ResultsShown, generationCount = 2, inFlight = [], batches = 1\<rparr>"

definition exNoSubjects :: app where
  "exNoSubjects =
     \<lparr>uploadedImages = [], inspirationImages = [exStyle], userPrompt = [],
      generatedImages =
        [Some \<lparr>status = Done, url = Some ''data:image/png;base64,CCCC'', error = None\<rparr>],
      appState = ResultsShown, generationCount = 1, inFlight = [], batches = 1\<rparr>"

text \<open>
  A run of the collection started from the first sample state, and the state it ends in:
  the first slot settles with an image, its regeneration is asked for, then the second
  slot settles.
\<close>

definition exEvents :: "event list" where
  "exEvents = [Settle 0 exFlaky, RegenerateSlot 0, Settle 0 exDenied]"

definition exRegenerating :: app where
  "exRegenerating =
     \<lparr>uploadedImages = [exSubject], inspirationImages = [exStyle], userPrompt = [],
      generatedImages =
        [Some \<lparr>status = Pending, url = None, error = None\<rparr>,
         Some \<lparr>status = Error, url = None,
               error = Some ''The AI model failed to generate an image. Details: API key not valid''\<rparr>],
      appState = ResultsShown, generationCount = 2,
      inFlight = [\<lparr>caller = Regeneration, slot = 0, subjects = [exSubject],
                    styles = [exStyle], instructions = []\<rparr>],
      batches = 1\<rparr>"

text \<open>
  From the shown results: the failed slot is regenerated, the user starts over while that
  call is in flight and uploads a subject and a style again. Then, after the click on
  generate, the call left over has settled with an image for the second slot.
\<close>

definition exRestarted :: app where
  "exRestarted =
     handleCropConfirm
       (handleCropConfirm (handleReset (handleRegenerateSlot exShown 1)) Main exSubject)
       Inspiration exStyle"

definition exOverwritten :: app where
  "exOverwritten =
     \<lparr>uploadedImages = [exSubject], inspirationImages = [exStyle], userPrompt = [],
      generatedImages =
        [Some \<lparr>status = Pending, url = None, error = None\<rparr>,
         Some \<lparr>status = Done, url = Some ''data:image/png;base64,CCCC'', error = None\<rparr>],
      appState = Generating, generationCount = 2,
      inFlight = [\<lparr>caller = Batch 1, slot = 0, subjects = [exSubject], styles = [exStyle],
                    instructions = []\<rparr>,
                  \<lparr>caller = Batch 1, slot = 1, subjects = [exSubject], styles = [exStyle],
                    instructions = []\<rparr>],
      batches = 2\<rparr>"

subsection \<open>The invariant of a batch\<close>





section \<open>Properties of the generation service\<close>

subsection \<open>The retry loop, one attempt at a time\<close>

lemma retry_returns:
  "attempt \<le> 3 \<Longrightarrow> ai attempt (generateContentRequest ps) = Inr response \<Longrightarrow>
   callGeminiWithRetryFrom ai ps attempt = (Inr response, [ApiCall (generateContentRequest ps)])"
  by (subst callGeminiWithRetryFrom.simps) (simp add: maxRetries_def)

lemma retry_again:
  "attempt < 3 \<Longrightarrow> ai attempt (generateContentRequest ps) = Inl e \<Longrightarrow>
   isRetriableError (errorMessageOf e) \<Longrightarrow>
   callGeminiWithRetryFrom ai ps attempt =
     (fst (callGeminiWithRetryFrom ai ps (attempt + 1)),
      ApiCall (generateContentRequest ps) # Delay (1000 * 2 ^ (attempt - 1))
        # snd (callGeminiWithRetryFrom ai ps (attempt + 1)))"
  by (subst callGeminiWithRetryFrom.simps) (simp add: maxRetries_def initialDelay_def Let_def)

lemma retry_gives_up:
  "attempt \<le> 3 \<Longrightarrow> ai attempt (generateContentRequest ps) = Inl e \<Longrightarrow>
   \<not> (isRetriableError (errorMessageOf e) \<and> attempt < 3) \<Longrightarrow>
   callGeminiWithRetryFrom ai ps attempt = (Inl e, [ApiCall (generateContentRequest ps)])"
  by (subst callGeminiWithRetryFrom.simps) (auto simp add: maxRetries_def)

lemma retry_effects_shape:
  "snd (callGeminiWithRetryFrom ai ps attempt) = [] \<or>
   (\<exists>es. snd (callGeminiWithRetryFrom ai ps attempt) = ApiCall (generateContentRequest ps) # es)"
  by (subst (1 2) callGeminiWithRetryFrom.simps) (simp split: sum.splits add: Let_def)

lemma retry_attempt_first:
  "attempt \<le> 3 \<Longrightarrow>
   \<exists>es. snd (callGeminiWithRetryFrom ai ps attempt) = ApiCall (generateContentRequest ps) # es"
  by (subst callGeminiWithRetryFrom.simps) (simp split: sum.splits add: Let_def maxRetries_def)

lemma retry_delaysBeforeCalls:
  "delaysBeforeCalls (snd (callGeminiWithRetryFrom ai ps attempt))"
proof (induction ai ps attempt rule: callGeminiWithRetryFrom.induct)
  case (1 ai ps attempt)
  show ?case
  proof (cases "attempt \<le> maxRetries")
    case False
    then show ?thesis by (subst callGeminiWithRetryFrom.simps) simp
  next
    case le: True
    show ?thesis
    proof (cases "ai attempt (generateContentRequest ps)")
      case (Inr response)
      with le show ?thesis by (subst callGeminiWithRetryFrom.simps) simp
    next
      case (Inl e)
      show ?thesis
      proof (cases "isRetriableError (errorMessageOf e) \<and> attempt < maxRetries")
        case False
        with le Inl show ?thesis by (subst callGeminiWithRetryFrom.simps) auto
      next
        case True
        then have "attempt + 1 \<le> 3" by (simp add: maxRetries_def)
        from retry_attempt_first [OF this] obtain es where
          es: "snd (callGeminiWithRetryFrom ai ps (attempt + 1)) = ApiCall (generateContentRequest ps) # es"
          by blast
        from "1.IH" [OF le Inl True] have "delaysBeforeCalls (snd (callGeminiWithRetryFrom ai ps (attempt + 1)))"
          by simp
        with le Inl True es show ?thesis
          by (subst callGeminiWithRetryFrom.simps) (simp add: Let_def)
      qed
    qed
  qed
qed

lemma retry_at_most_three:
  "0 < attempt \<Longrightarrow> length (filter isApiCall (snd (callGeminiWithRetryFrom ai ps attempt))) \<le> 4 - attempt"
proof (induction ai ps attempt rule: callGeminiWithRetryFrom.induct)
  case (1 ai ps attempt)
  show ?case
  proof (cases "attempt \<le> maxRetries")
    case False
    then show ?thesis by (subst callGeminiWithRetryFrom.simps) simp
  next
    case le: True
    show ?thesis
    proof (cases "ai attempt (generateContentRequest ps)")
      case (Inr response)
      with le show ?thesis by (subst callGeminiWithRetryFrom.simps) (simp add: maxRetries_def)
    next
      case (Inl e)
      show ?thesis
      proof (cases "isRetriableError (errorMessageOf e) \<and> attempt < maxRetries")
        case False
        with le Inl show ?thesis by (subst callGeminiWithRetryFrom.simps) (auto simp: maxRetries_def)
      next
        case True
        from "1.IH" [OF le Inl True]
        have "length (filter isApiCall (snd (callGeminiWithRetryFrom ai ps (attempt + 1)))) \<le> 4 - (attempt + 1)"
          by simp
        with le Inl True show ?thesis
          by (subst callGeminiWithRetryFrom.simps) (auto simp add: Let_def maxRetries_def)
      qed
    qed
  qed
qed

lemma generate_effects:
  "snd (generateVibeBasedImage ai m i u) =
     (case allParts m i u of Inl e \<Rightarrow> [] | Inr ps \<Rightarrow> snd (callGeminiWithRetry ai ps))"
  by (simp add: generateVibeBasedImage_def tryGenerate_def split: sum.splits prod.splits)

lemma exParts_encoded: "allParts [exSubject] [exStyle] [] = Inr exParts"
  by (simp add: allParts_def dataUrlToGeminiPart_def matchDataUrl_def exSubject_def exStyle_def
      isWordChar_def isLineTerminator_def exParts_def textPrompt_def)

lemma jsIncludes_prefix: "prefix sub s \<Longrightarrow> jsIncludes s sub"
  by (cases s) simp_all

lemma respondedWithText_recognised:
  "jsIncludes (respondedWithText t) ''The AI model responded with text''"
  by (rule jsIncludes_prefix) (simp add: respondedWithText_def)

lemma generate_from_retry:
  "allParts m i u = Inr ps \<Longrightarrow>
   generateVibeBasedImage ai m i u =
     (case callGeminiWithRetry ai ps of
        (Inl e, effects) \<Rightarrow> (Inl (rethrow e), effects)
      | (Inr response, effects) \<Rightarrow>
          (case processGeminiResponse response of
             Inl e \<Rightarrow> (Inl (rethrow e), effects)
           | Inr resultUrl \<Rightarrow> (Inr resultUrl, effects)))"
  by (simp add: generateVibeBasedImage_def tryGenerate_def split: sum.splits prod.splits)

lemma retry_first:
  "ai 1 (generateContentRequest ps) = Inl e \<Longrightarrow> isRetriableError (errorMessageOf e) \<Longrightarrow>
   callGeminiWithRetryFrom ai ps 1 =
     (fst (callGeminiWithRetryFrom ai ps 2),
      ApiCall (generateContentRequest ps) # Delay 1000 # snd (callGeminiWithRetryFrom ai ps 2))"
  by (subst callGeminiWithRetryFrom.simps)
    (simp add: maxRetries_def initialDelay_def Let_def numeral_2_eq_2)

lemma retry_second:
  "ai 2 (generateContentRequest ps) = Inl e \<Longrightarrow> isRetriableError (errorMessageOf e) \<Longrightarrow>
   callGeminiWithRetryFrom ai ps 2 =
     (fst (callGeminiWithRetryFrom ai ps 3),
      ApiCall (generateContentRequest ps) # Delay 2000 # snd (callGeminiWithRetryFrom ai ps 3))"
  by (subst callGeminiWithRetryFrom.simps) (simp add: maxRetries_def initialDelay_def Let_def)

subsection \<open>Retry and backoff\<close>

text \<open>
  C1. When the first two upstream attempts of a generation throw errors that the retry
  loop classifies as retriable and the third returns a response carrying an inline image,
  the generation returns that image as a data URL, having made exactly three upstream
  calls with a delay of 1000 ms before the second and of 2000 ms before the third.
  Whatever the upstream does, every delay is followed at once by an upstream call.
\<close>

theorem retry_twice_then_image:
  assumes parts: "allParts mainImageDataUrls inspirationDataUrls instruction = Inr ps"
    and first: "ai 1 (generateContentRequest ps) = Inl e1" "isRetriableError (errorMessageOf e1)"
    and second: "ai 2 (generateContentRequest ps) = Inl e2" "isRetriableError (errorMessageOf e2)"
    and third: "ai 3 (generateContentRequest ps) = Inr response"
    and blob: "Option.bind (imagePartFromResponse response) inlineData = Some blob"
  shows "generateVibeBasedImage ai mainImageDataUrls inspirationDataUrls instruction =
           (Inr (''data:'' @ template (mimeType blob) @ '';base64,'' @ template (data blob)),
            [ApiCall (generateContentRequest ps), Delay 1000,
             ApiCall (generateContentRequest ps), Delay 2000,
             ApiCall (generateContentRequest ps)])
         \<and> delaysBeforeCalls (snd (generateVibeBasedImage ai' m i u))"
proof
  have "callGeminiWithRetryFrom ai ps 3 = (Inr response, [ApiCall (generateContentRequest ps)])"
    using third by (simp add: retry_returns)
  then have "callGeminiWithRetryFrom ai ps 2 =
      (Inr response, [ApiCall (generateContentRequest ps), Delay 2000,
                      ApiCall (generateContentRequest ps)])"
    using retry_second [of ai ps e2] second by simp
  then have "callGeminiWithRetry ai ps =
      (Inr response, [ApiCall (generateContentRequest ps), Delay 1000,
                      ApiCall (generateContentRequest ps), Delay 2000,
                      ApiCall (generateContentRequest ps)])"
    using retry_first [of ai ps e1] first by (simp add: callGeminiWithRetry_def)
  then show "generateVibeBasedImage ai mainImageDataUrls inspirationDataUrls instruction =
           (Inr (''data:'' @ template (mimeType blob) @ '';base64,'' @ template (data blob)),
            [ApiCall (generateContentRequest ps), Delay 1000,
             ApiCall (generateContentRequest ps), Delay 2000,
             ApiCall (generateContentRequest ps)])"
    using blob by (simp add: generate_from_retry [OF parts] processGeminiResponse_def)
  show "delaysBeforeCalls (snd (generateVibeBasedImage ai' m i u))"
    by (simp add: generate_effects callGeminiWithRetry_def retry_delaysBeforeCalls
        split: sum.splits)
qed

theorem retry_twice_then_image_witness:
  "generateVibeBasedImage exFlaky [exSubject] [exStyle] [] =
     (Inr ''data:image/png;base64,CCCC'',
      [ApiCall (generateContentRequest exParts), Delay 1000,
       ApiCall (generateContentRequest exParts), Delay 2000,
       ApiCall (generateContentRequest exParts)])"
proof -
  have r: "isRetriableError (errorMessageOf (JsError ''503 Service Unavailable''))"
    by (simp add: isRetriableError_def errorMessageOf_def)
  have img: "Option.bind (imagePartFromResponse exResponse) inlineData =
      Some \<lparr>mimeType = Some ''image/png'', data = Some ''CCCC''\<rparr>"
    by (simp add: imagePartFromResponse_def firstCandidateParts_def exResponse_def)
  show ?thesis
    using retry_twice_then_image [OF exParts_encoded, of exFlaky, OF _ r _ r _ img]
    by (simp add: exFlaky_def template_def)
qed

text \<open>
  C2, as amended. When all three upstream attempts throw retriable errors, the generation
  makes exactly three upstream calls, with the two delays between them, and throws an
  error; its message wraps the last failure's message whenever that message does not
  contain the wording \<^verbatim>\<open>The AI model responded with text\<close>. No generation makes more than
  three upstream calls.
\<close>

theorem retry_exhaustion:
  assumes parts: "allParts mainImageDataUrls inspirationDataUrls instruction = Inr ps"
    and first: "ai 1 (generateContentRequest ps) = Inl e1" "isRetriableError (errorMessageOf e1)"
    and second: "ai 2 (generateContentRequest ps) = Inl e2" "isRetriableError (errorMessageOf e2)"
    and third: "ai 3 (generateContentRequest ps) = Inl e3" "isRetriableError (errorMessageOf e3)"
  shows "snd (generateVibeBasedImage ai mainImageDataUrls inspirationDataUrls instruction) =
           [ApiCall (generateContentRequest ps), Delay 1000,
            ApiCall (generateContentRequest ps), Delay 2000,
            ApiCall (generateContentRequest ps)]
         \<and> (\<exists>msg. fst (generateVibeBasedImage ai mainImageDataUrls inspirationDataUrls instruction) =
                Inl (JsError msg))
         \<and> (\<not> jsIncludes (errorMessageOf e3) ''The AI model responded with text'' \<longrightarrow>
              fst (generateVibeBasedImage ai mainImageDataUrls inspirationDataUrls instruction) =
                Inl (JsError (failedToGenerate (errorMessageOf e3))))
         \<and> length (filter isApiCall (snd (generateVibeBasedImage ai' m i u))) \<le> 3"
proof -
  have "callGeminiWithRetryFrom ai ps 3 = (Inl e3, [ApiCall (generateContentRequest ps)])"
    using third by (simp add: retry_gives_up)
  then have "callGeminiWithRetryFrom ai ps 2 =
      (Inl e3, [ApiCall (generateContentRequest ps), Delay 2000,
                ApiCall (generateContentRequest ps)])"
    using retry_second [of ai ps e2] second by simp
  then have "callGeminiWithRetry ai ps =
      (Inl e3, [ApiCall (generateContentRequest ps), Delay 1000,
                ApiCall (generateContentRequest ps), Delay 2000,
                ApiCall (generateContentRequest ps)])"
    using retry_first [of ai ps e1] first by (simp add: callGeminiWithRetry_def)
  then have whole: "generateVibeBasedImage ai mainImageDataUrls inspirationDataUrls instruction =
           (Inl (rethrow e3),
            [ApiCall (generateContentRequest ps), Delay 1000,
             ApiCall (generateContentRequest ps), Delay 2000,
             ApiCall (generateContentRequest ps)])"
    by (simp add: generate_from_retry [OF parts])
  have "length (filter isApiCall (snd (callGeminiWithRetryFrom ai' ps' 1))) \<le> 3" for ps'
    using retry_at_most_three [of 1 ai' ps'] by simp
  then have "length (filter isApiCall (snd (generateVibeBasedImage ai' m i u))) \<le> 3"
    by (simp add: generate_effects callGeminiWithRetry_def split: sum.splits)
  with whole show ?thesis
    by (simp add: rethrow_def Let_def)
qed

theorem retry_exhaustion_witness:
  "generateVibeBasedImage exOverloaded [exSubject] [exStyle] [] =
     (Inl (JsError ''The AI model failed to generate an image. Details: 503 Service Unavailable''),
      [ApiCall (generateContentRequest exParts), Delay 1000,
       ApiCall (generateContentRequest exParts), Delay 2000,
       ApiCall (generateContentRequest exParts)])"
proof -
  have r: "isRetriableError (errorMessageOf (JsError ''503 Service Unavailable''))"
    by (simp add: isRetriableError_def errorMessageOf_def)
  have p: "\<not> jsIncludes (errorMessageOf (JsError ''503 Service Unavailable''))
      ''The AI model responded with text''"
    by (simp add: errorMessageOf_def)
  show ?thesis
    using retry_exhaustion [OF exParts_encoded, of exOverloaded, OF _ r _ r _ r] p
    by (simp add: exOverloaded_def failedToGenerate_def errorMessageOf_def prod_eq_iff)
qed

text \<open>
  C2 as stated fails where the last retriable failure's message itself contains the
  wording by which the \<^verbatim>\<open>catch\<close> block recognises a reply of text: after the three
  attempts the fixed message is thrown, which does not contain the failure's message.
\<close>

theorem retry_exhaustion_counterexample:
  "isRetriableError ''INTERNAL: The AI model responded with text''
   \<and> generateVibeBasedImage exCollision [exSubject] [exStyle] [] =
       (Inl (JsError couldNotGenerate),
        [ApiCall (generateContentRequest exParts), Delay 1000,
         ApiCall (generateContentRequest exParts), Delay 2000,
         ApiCall (generateContentRequest exParts)])
   \<and> \<not> jsIncludes couldNotGenerate ''INTERNAL: The AI model responded with text''"
proof -
  have r: "isRetriableError ''INTERNAL: The AI model responded with text''"
    by (simp add: isRetriableError_def)
  have "callGeminiWithRetryFrom exCollision exParts 3 =
      (Inl (JsError ''INTERNAL: The AI model responded with text''),
       [ApiCall (generateContentRequest exParts)])"
    by (simp add: retry_gives_up exCollision_def)
  then have "callGeminiWithRetryFrom exCollision exParts 2 =
      (Inl (JsError ''INTERNAL: The AI model responded with text''),
       [ApiCall (generateContentRequest exParts), Delay 2000,
        ApiCall (generateContentRequest exParts)])"
    using retry_second [of exCollision exParts "JsError ''INTERNAL: The AI model responded with text''"] r
    by (simp add: exCollision_def errorMessageOf_def)
  then have "callGeminiWithRetry exCollision exParts =
      (Inl (JsError ''INTERNAL: The AI model responded with text''),
       [ApiCall (generateContentRequest exParts), Delay 1000,
        ApiCall (generateContentRequest exParts), Delay 2000,
        ApiCall (generateContentRequest exParts)])"
    using retry_first [of exCollision exParts "JsError ''INTERNAL: The AI model responded with text''"] r
    by (simp add: exCollision_def errorMessageOf_def callGeminiWithRetry_def)
  then have "generateVibeBasedImage exCollision [exSubject] [exStyle] [] =
       (Inl (JsError couldNotGenerate),
        [ApiCall (generateContentRequest exParts), Delay 1000,
         ApiCall (generateContentRequest exParts), Delay 2000,
         ApiCall (generateContentRequest exParts)])"
    by (simp add: generate_from_retry [OF exParts_encoded] rethrow_def errorMessageOf_def)
  moreover have "\<not> jsIncludes couldNotGenerate ''INTERNAL: The AI model responded with text''"
    by (simp add: couldNotGenerate_def)
  ultimately show ?thesis using r by simp
qed

text \<open>
  C3. When the first upstream attempt throws an error that the retry loop does not
  classify as retriable, the generation fails with exactly one upstream call and no
  delay.
\<close>

theorem permanent_failure_one_attempt:
  assumes parts: "allParts mainImageDataUrls inspirationDataUrls instruction = Inr ps"
    and first: "ai 1 (generateContentRequest ps) = Inl e"
    and permanent: "\<not> isRetriableError (errorMessageOf e)"
  shows "generateVibeBasedImage ai mainImageDataUrls inspirationDataUrls instruction =
           (Inl (rethrow e), [ApiCall (generateContentRequest ps)])"
proof -
  have "callGeminiWithRetry ai ps = (Inl e, [ApiCall (generateContentRequest ps)])"
    using first permanent by (simp add: callGeminiWithRetry_def retry_gives_up)
  then show ?thesis
    by (simp add: generate_from_retry [OF parts])
qed

theorem permanent_failure_one_attempt_witness:
  "generateVibeBasedImage exDenied [exSubject] [exStyle] [] =
     (Inl (JsError ''The AI model failed to generate an image. Details: API key not valid''),
      [ApiCall (generateContentRequest exParts)])"
proof -
  have p: "\<not> isRetriableError (errorMessageOf (JsError ''API key not valid''))"
    by (simp add: isRetriableError_def errorMessageOf_def)
  show ?thesis
    using permanent_failure_one_attempt [OF exParts_encoded, of exDenied, OF _ p]
    by (simp add: exDenied_def rethrow_def errorMessageOf_def failedToGenerate_def)
qed

subsection \<open>Encoding and decoding\<close>

lemma stripPrefix_Some: "stripPrefix p s = Some r \<longleftrightarrow> s = p @ r"
  by (induction p s rule: stripPrefix.induct) auto

lemma stripPrefix_append: "stripPrefix p (p @ r) = Some r"
  by (simp add: stripPrefix_Some)

lemma semicolon_no_word: "\<not> isWordChar CHR '';''"
  by (simp add: isWordChar_def)

lemma matchDataUrl_format:
  assumes "subtype \<noteq> []" "list_all isWordChar subtype" "\<not> list_ex isLineTerminator payload"
  shows "matchDataUrl (''data:image/'' @ subtype @ '';base64,'' @ payload) =
           Some (''image/'' @ subtype, payload)"
proof -
  have word: "\<And>x. x \<in> set subtype \<Longrightarrow> isWordChar x"
    using assms(2) by (simp add: list_all_iff)
  have strip: "stripPrefix ''data:image/'' (''data:image/'' @ subtype @ '';base64,'' @ payload) =
      Some (subtype @ '';base64,'' @ payload)"
    by (rule stripPrefix_append)
  have tw: "takeWhile isWordChar (subtype @ '';base64,'' @ payload) = subtype"
    using word by (simp add: semicolon_no_word)
  have dw: "dropWhile isWordChar (subtype @ '';base64,'' @ payload) = '';base64,'' @ payload"
    using word by (simp add: semicolon_no_word)
  have strip2: "stripPrefix '';base64,'' ('';base64,'' @ payload) = Some payload"
    by (rule stripPrefix_append)
  show ?thesis
    unfolding matchDataUrl_def strip using assms(1,3)
    by (simp only: option.case Let_def tw dw strip2 if_False)
qed

lemma matchDataUrl_Some:
  assumes "matchDataUrl dataUrl = Some (mime, payload)"
  shows "\<exists>subtype. dataUrl = ''data:image/'' @ subtype @ '';base64,'' @ payload
           \<and> mime = ''image/'' @ subtype \<and> subtype \<noteq> [] \<and> list_all isWordChar subtype
           \<and> \<not> list_ex isLineTerminator payload"
proof -
  from assms obtain rest where rest: "stripPrefix ''data:image/'' dataUrl = Some rest"
    by (auto simp: matchDataUrl_def split: option.splits)
  let ?subtype = "takeWhile isWordChar rest"
  from assms rest have ne: "?subtype \<noteq> []"
    by (auto simp: matchDataUrl_def Let_def split: option.splits if_splits)
  from assms rest ne have tail: "stripPrefix '';base64,'' (dropWhile isWordChar rest) = Some payload"
    and clean: "\<not> list_ex isLineTerminator payload" and mime: "mime = ''image/'' @ ?subtype"
    by (auto simp: matchDataUrl_def Let_def split: option.splits if_splits)
  from tail have "dropWhile isWordChar rest = '';base64,'' @ payload"
    by (simp only: stripPrefix_Some)
  then have "rest = ?subtype @ '';base64,'' @ payload"
    by (metis takeWhile_dropWhile_id)
  moreover from rest have "dataUrl = ''data:image/'' @ rest"
    by (simp only: stripPrefix_Some)
  moreover have "list_all isWordChar ?subtype"
    by (auto simp: list_all_iff dest: set_takeWhileD)
  ultimately show ?thesis using ne clean mime by blast
qed

lemma matchDataUrl_iff_format: "matchDataUrl dataUrl \<noteq> None \<longleftrightarrow> dataImageFormat dataUrl"
proof
  assume "matchDataUrl dataUrl \<noteq> None"
  then obtain mime payload where "matchDataUrl dataUrl = Some (mime, payload)" by auto
  from matchDataUrl_Some [OF this] show "dataImageFormat dataUrl"
    unfolding dataImageFormat_def by blast
next
  assume "dataImageFormat dataUrl"
  then obtain subtype payload where
    "dataUrl = ''data:image/'' @ subtype @ '';base64,'' @ payload" "subtype \<noteq> []"
    "list_all isWordChar subtype" "\<not> list_ex isLineTerminator payload"
    unfolding dataImageFormat_def by blast
  then show "matchDataUrl dataUrl \<noteq> None"
    using matchDataUrl_format [of subtype payload] by simp
qed

lemma dataUrlToGeminiPart_cases:
  "dataUrlToGeminiPart dataUrl = Inl (JsError invalidDataUrl) \<and> matchDataUrl dataUrl = None
   \<or> (\<exists>part. dataUrlToGeminiPart dataUrl = Inr part) \<and> matchDataUrl dataUrl \<noteq> None"
  by (auto simp: dataUrlToGeminiPart_def split: option.splits)

lemma mapOrThrow_first_throw:
  assumes "\<And>x e. f x = Inl e \<Longrightarrow> e = e0" and "\<exists>x\<in>set xs. f x = Inl e0"
  shows "mapOrThrow f xs = Inl e0"
  using assms(2)
proof (induction xs)
  case Nil
  then show ?case by simp
next
  case (Cons x xs)
  show ?case
  proof (cases "f x")
    case (Inl e)
    with assms(1) show ?thesis by auto
  next
    case (Inr y)
    with Cons.prems have "\<exists>x\<in>set xs. f x = Inl e0" by auto
    from Cons.IH [OF this] Inr show ?thesis by simp
  qed
qed

lemma mapOrThrow_all_or_throw:
  assumes "\<And>x e. f x = Inl e \<Longrightarrow> e = e0"
  shows "mapOrThrow f xs = Inl e0 \<or> (\<exists>ys. mapOrThrow f xs = Inr ys)"
proof (induction xs)
  case Nil
  then show ?case by simp
next
  case (Cons x xs)
  then show ?case using assms by (auto split: sum.splits)
qed


lemma encode_throws_one_error: "dataUrlToGeminiPart x = Inl e \<Longrightarrow> e = JsError invalidDataUrl"
  using dataUrlToGeminiPart_cases [of x] by auto

lemma allParts_malformed:
  assumes "dataUrl \<in> set (mainImageDataUrls @ inspirationDataUrls)"
    and "matchDataUrl dataUrl = None"
  shows "allParts mainImageDataUrls inspirationDataUrls instruction = Inl (JsError invalidDataUrl)"
proof -
  have bad: "dataUrlToGeminiPart dataUrl = Inl (JsError invalidDataUrl)"
    using assms(2) by (simp add: dataUrlToGeminiPart_def)
  show ?thesis
  proof (cases "dataUrl \<in> set mainImageDataUrls")
    case True
    with bad have "mapOrThrow dataUrlToGeminiPart mainImageDataUrls = Inl (JsError invalidDataUrl)"
      by (intro mapOrThrow_first_throw) (auto dest: encode_throws_one_error)
    then show ?thesis by (simp add: allParts_def)
  next
    case False
    with assms(1) bad
    have "mapOrThrow dataUrlToGeminiPart inspirationDataUrls = Inl (JsError invalidDataUrl)"
      by (intro mapOrThrow_first_throw) (auto dest: encode_throws_one_error)
    moreover have "mapOrThrow dataUrlToGeminiPart mainImageDataUrls = Inl (JsError invalidDataUrl)
        \<or> (\<exists>ys. mapOrThrow dataUrlToGeminiPart mainImageDataUrls = Inr ys)"
      by (rule mapOrThrow_all_or_throw) (rule encode_throws_one_error)
    ultimately show ?thesis
      by (auto simp: allParts_def)
  qed
qed

lemma rethrow_invalidDataUrl:
  "rethrow (JsError invalidDataUrl) = JsError (failedToGenerate invalidDataUrl)"
  by (simp add: rethrow_def errorMessageOf_def invalidDataUrl_def)

lemma generate_malformed:
  assumes "dataUrl \<in> set (mainImageDataUrls @ inspirationDataUrls)"
    and "matchDataUrl dataUrl = None"
  shows "generateVibeBasedImage ai mainImageDataUrls inspirationDataUrls instruction =
           (Inl (JsError (failedToGenerate invalidDataUrl)), [])"
  using allParts_malformed [OF assms]
  by (simp add: generateVibeBasedImage_def tryGenerate_def rethrow_invalidDataUrl)

text \<open>
  C9. Encoding a payload succeeds, with an inline-data part, exactly when the payload has
  the embedded-data format: \<^verbatim>\<open>data:image/\<close>, a non-empty subtype of word characters,
  \<^verbatim>\<open>;base64,\<close> and a payload without a line break; the part then carries the media
  type and the payload. Any other payload makes the encoder throw its format error, and a
  generation with such a payload among its subjects or styles throws an error that wraps
  that message without any upstream call or delay.
\<close>

theorem encoding_accepts_exactly_the_format:
  "((\<exists>part. dataUrlToGeminiPart dataUrl = Inr part) \<longleftrightarrow> dataImageFormat dataUrl)
   \<and> (subtype \<noteq> [] \<and> list_all isWordChar subtype \<and> \<not> list_ex isLineTerminator payload \<longrightarrow>
         dataUrlToGeminiPart (''data:image/'' @ subtype @ '';base64,'' @ payload) =
           Inr \<lparr>inlineData = Some \<lparr>mimeType = Some (''image/'' @ subtype), data = Some payload\<rparr>,
                text = None\<rparr>)
   \<and> (\<not> dataImageFormat dataUrl \<longrightarrow>
         dataUrlToGeminiPart dataUrl = Inl (JsError invalidDataUrl)
         \<and> (dataUrl \<in> set (mainImageDataUrls @ inspirationDataUrls) \<longrightarrow>
              generateVibeBasedImage ai mainImageDataUrls inspirationDataUrls instruction =
                (Inl (JsError (failedToGenerate invalidDataUrl)), [])))"
proof (intro conjI impI)
  show "(\<exists>part. dataUrlToGeminiPart dataUrl = Inr part) \<longleftrightarrow> dataImageFormat dataUrl"
    using dataUrlToGeminiPart_cases [of dataUrl] matchDataUrl_iff_format [of dataUrl] by auto
next
  assume "subtype \<noteq> [] \<and> list_all isWordChar subtype \<and> \<not> list_ex isLineTerminator payload"
  then show "dataUrlToGeminiPart (''data:image/'' @ subtype @ '';base64,'' @ payload) =
           Inr \<lparr>inlineData = Some \<lparr>mimeType = Some (''image/'' @ subtype), data = Some payload\<rparr>,
                text = None\<rparr>"
    using matchDataUrl_format [of subtype payload] by (simp add: dataUrlToGeminiPart_def)
next
  assume "\<not> dataImageFormat dataUrl"
  then show "dataUrlToGeminiPart dataUrl = Inl (JsError invalidDataUrl)"
    using dataUrlToGeminiPart_cases [of dataUrl] matchDataUrl_iff_format [of dataUrl] by auto
next
  assume "\<not> dataImageFormat dataUrl" "dataUrl \<in> set (mainImageDataUrls @ inspirationDataUrls)"
  then show "generateVibeBasedImage ai mainImageDataUrls inspirationDataUrls instruction =
                (Inl (JsError (failedToGenerate invalidDataUrl)), [])"
    using generate_malformed [of dataUrl] matchDataUrl_iff_format [of dataUrl] by blast
qed

theorem encoding_accepts_exactly_the_format_witness:
  "dataUrlToGeminiPart exSubject =
     Inr \<lparr>inlineData = Some \<lparr>mimeType = Some ''image/jpeg'', data = Some ''AAAA''\<rparr>, text = None\<rparr>
   \<and> \<not> dataImageFormat exMalformed
   \<and> dataUrlToGeminiPart exMalformed = Inl (JsError invalidDataUrl)
   \<and> generateVibeBasedImage exFlaky [exSubject] [exMalformed, exStyle] [] =
       (Inl (JsError (failedToGenerate invalidDataUrl)), [])"
proof -
  have good: "dataUrlToGeminiPart exSubject =
     Inr \<lparr>inlineData = Some \<lparr>mimeType = Some ''image/jpeg'', data = Some ''AAAA''\<rparr>, text = None\<rparr>"
    using encoding_accepts_exactly_the_format [where subtype = "''jpeg''" and payload = "''AAAA''"]
    by (simp add: exSubject_def isWordChar_def isLineTerminator_def)
  have "dataUrlToGeminiPart exMalformed = Inl (JsError invalidDataUrl)"
    by (simp add: dataUrlToGeminiPart_def matchDataUrl_def exMalformed_def)
  then have bad: "\<not> dataImageFormat exMalformed"
    using encoding_accepts_exactly_the_format [where dataUrl = exMalformed] by simp
  show ?thesis
    using good bad
      encoding_accepts_exactly_the_format [where dataUrl = exMalformed
        and mainImageDataUrls = "[exSubject]" and inspirationDataUrls = "[exMalformed, exStyle]"
        and ai = exFlaky and instruction = "[]"]
    by simp
qed

text \<open>
  C10. For a media type \<^verbatim>\<open>image/\<close> plus a non-empty subtype of word characters and a
  payload over the base64 alphabet, the encoder gives the part with exactly that media
  type and payload, and the response extractor turns a response whose image part is that
  part back into the data URL the encoder was given.
\<close>

theorem encode_decode_roundtrip:
  assumes "subtype \<noteq> []" and "list_all isWordChar subtype" and "list_all isBase64Char payload"
  shows "dataUrlToGeminiPart (''data:'' @ (''image/'' @ subtype) @ '';base64,'' @ payload) =
           Inr \<lparr>inlineData = Some \<lparr>mimeType = Some (''image/'' @ subtype), data = Some payload\<rparr>,
                text = None\<rparr>
         \<and> (imagePartFromResponse response =
               Some \<lparr>inlineData = Some \<lparr>mimeType = Some (''image/'' @ subtype), data = Some payload\<rparr>,
                     text = None\<rparr> \<longrightarrow>
             processGeminiResponse response =
               Inr (''data:'' @ (''image/'' @ subtype) @ '';base64,'' @ payload))"
proof -
  have "\<not> isLineTerminator c" if "isBase64Char c" for c
    using that by (auto simp: isBase64Char_def isLineTerminator_def Let_def)
  with assms(3) have "\<not> list_ex isLineTerminator payload"
    by (auto simp: list_all_iff list_ex_iff)
  with assms(1,2) have "matchDataUrl (''data:image/'' @ subtype @ '';base64,'' @ payload) =
      Some (''image/'' @ subtype, payload)"
    by (rule matchDataUrl_format)
  then show ?thesis
    by (simp add: dataUrlToGeminiPart_def processGeminiResponse_def template_def)
qed

theorem encode_decode_roundtrip_witness:
  "dataUrlToGeminiPart ''data:image/png;base64,CCCC'' =
     Inr \<lparr>inlineData = Some \<lparr>mimeType = Some ''image/png'', data = Some ''CCCC''\<rparr>, text = None\<rparr>
   \<and> processGeminiResponse exResponse = Inr ''data:image/png;base64,CCCC''"
proof -
  have img: "imagePartFromResponse exResponse =
      Some \<lparr>inlineData = Some \<lparr>mimeType = Some ''image/png'', data = Some ''CCCC''\<rparr>, text = None\<rparr>"
    by (simp add: imagePartFromResponse_def firstCandidateParts_def exResponse_def)
  show ?thesis
    using encode_decode_roundtrip [of "''png''" "''CCCC''" exResponse] img
    by (simp add: isWordChar_def isBase64Char_def)
qed

subsection \<open>The request payload and the response\<close>


lemma trim_no_break_space: "trim [CHR 0xA0] = [] \<and> trim ([CHR 0xA0] @ ''a'' @ [CHR 0x09]) = ''a''"
  by (simp add: trim_def isWhiteSpace_def)

lemma find_first:
  "\<forall>p\<in>set before. \<not> P p \<Longrightarrow> P x \<Longrightarrow> find P (before @ x # after) = Some x"
  by (induction before) auto






text \<open>
  C4, as amended. When the retry wrapper returns a response, the first part with inline
  data among the parts of its first candidate is returned as a data URL of its media type
  and payload. When there is no such part, the response extractor throws an error saying
  that the model responded with text instead of an image, with the text of the response
  (or a fixed note when there is none) quoted in it, and the generation throws to its
  caller the fixed message that the model could not generate an image, which carries
  neither. In both cases the effects are those of the retry wrapper, nothing more: a
  response returned by the first attempt leaves exactly one upstream call.
\<close>

theorem response_extraction:
  assumes parts: "allParts mainImageDataUrls inspirationDataUrls instruction = Inr ps"
    and answered: "callGeminiWithRetry ai ps = (Inr response, effects)"
  shows "(firstCandidateParts response = Some (before @ part # after)
            \<and> (\<forall>p\<in>set before. inlineData p = None) \<and> inlineData part = Some blob \<longrightarrow>
          generateVibeBasedImage ai mainImageDataUrls inspirationDataUrls instruction =
            (Inr (''data:'' @ template (mimeType blob) @ '';base64,'' @ template (data blob)),
             effects))
         \<and> (imagePartFromResponse response = None \<longrightarrow>
              processGeminiResponse response =
                Inl (JsError (''The AI model responded with text instead of an image: ''
                  @ [CHR 0x22]
                  @ (case response_text response of
                       None \<Rightarrow> ''No text response received.''
                     | Some t \<Rightarrow> if t = [] then ''No text response received.'' else t)
                  @ [CHR 0x22]))
              \<and> generateVibeBasedImage ai mainImageDataUrls inspirationDataUrls instruction =
                  (Inl (JsError couldNotGenerate), effects))
         \<and> (\<forall>first. ai 1 (generateContentRequest ps) = Inr first \<longrightarrow>
               first = response \<and> effects = [ApiCall (generateContentRequest ps)])"
proof (intro conjI impI allI)
  assume found: "firstCandidateParts response = Some (before @ part # after)
      \<and> (\<forall>p\<in>set before. inlineData p = None) \<and> inlineData part = Some blob"
  then have "find (\<lambda>part. inlineData part \<noteq> None) (before @ part # after) = Some part"
    by (intro find_first) auto
  with found have "Option.bind (imagePartFromResponse response) inlineData = Some blob"
    by (simp add: imagePartFromResponse_def)
  then show "generateVibeBasedImage ai mainImageDataUrls inspirationDataUrls instruction =
            (Inr (''data:'' @ template (mimeType blob) @ '';base64,'' @ template (data blob)),
             effects)"
    by (simp add: generate_from_retry [OF parts] answered processGeminiResponse_def)
next
  assume none: "imagePartFromResponse response = None"
  then show "processGeminiResponse response =
                Inl (JsError (''The AI model responded with text instead of an image: ''
                  @ [CHR 0x22]
                  @ (case response_text response of
                       None \<Rightarrow> ''No text response received.''
                     | Some t \<Rightarrow> if t = [] then ''No text response received.'' else t)
                  @ [CHR 0x22]))"
    by (simp add: processGeminiResponse_def respondedWithText_def)
  from none show "generateVibeBasedImage ai mainImageDataUrls inspirationDataUrls instruction =
                  (Inl (JsError couldNotGenerate), effects)"
    by (simp add: generate_from_retry [OF parts] answered processGeminiResponse_def rethrow_def
        errorMessageOf_def respondedWithText_recognised)
next
  fix first
  assume "ai 1 (generateContentRequest ps) = Inr first"
  then have "callGeminiWithRetry ai ps = (Inr first, [ApiCall (generateContentRequest ps)])"
    by (simp add: callGeminiWithRetry_def retry_returns)
  with answered show "first = response" and "effects = [ApiCall (generateContentRequest ps)]"
    by simp_all
qed

theorem response_extraction_witness:
  "generateVibeBasedImage exFlaky [exSubject] [exStyle] [] =
     (Inr ''data:image/png;base64,CCCC'',
      [ApiCall (generateContentRequest exParts), Delay 1000,
       ApiCall (generateContentRequest exParts), Delay 2000,
       ApiCall (generateContentRequest exParts)])
   \<and> generateVibeBasedImage exChatty [exSubject] [exStyle] [] =
       (Inl (JsError couldNotGenerate), [ApiCall (generateContentRequest exParts)])"
proof -
  have r: "isRetriableError (errorMessageOf (JsError ''503 Service Unavailable''))"
    by (simp add: isRetriableError_def errorMessageOf_def)
  have flaky: "callGeminiWithRetry exFlaky exParts =
      (Inr exResponse,
       [ApiCall (generateContentRequest exParts), Delay 1000,
        ApiCall (generateContentRequest exParts), Delay 2000,
        ApiCall (generateContentRequest exParts)])"
    using retry_first [of exFlaky exParts, OF _ r] retry_second [of exFlaky exParts, OF _ r]
      retry_returns [of 3 exFlaky exParts exResponse]
    by (simp add: exFlaky_def callGeminiWithRetry_def)
  have chatty: "callGeminiWithRetry exChatty exParts =
      (Inr exTextOnly, [ApiCall (generateContentRequest exParts)])"
    by (simp add: callGeminiWithRetry_def retry_returns exChatty_def)
  have shape: "firstCandidateParts exResponse =
      Some ([\<lparr>inlineData = None, text = Some ''Here you go''\<rparr>]
        @ \<lparr>inlineData = Some \<lparr>mimeType = Some ''image/png'', data = Some ''CCCC''\<rparr>, text = None\<rparr>
        # [])"
    by (simp add: firstCandidateParts_def exResponse_def)
  have none: "imagePartFromResponse exTextOnly = None"
    by (simp add: imagePartFromResponse_def firstCandidateParts_def exTextOnly_def)
  show ?thesis
    using response_extraction [OF exParts_encoded flaky,
        of "[\<lparr>inlineData = None, text = Some ''Here you go''\<rparr>]"
          "\<lparr>inlineData = Some \<lparr>mimeType = Some ''image/png'', data = Some ''CCCC''\<rparr>, text = None\<rparr>"
          "[]" "\<lparr>mimeType = Some ''image/png'', data = Some ''CCCC''\<rparr>"]
      response_extraction [OF exParts_encoded chatty] shape none
    by (simp add: template_def)
qed

text \<open>
  C4 as stated fails for a response of text alone: the error the generation throws to its
  caller carries neither the text of the response nor the statement that text came
  instead of an image.
\<close>

theorem response_extraction_counterexample:
  "response_text exTextOnly = Some ''I cannot draw that''
   \<and> generateVibeBasedImage exChatty [exSubject] [exStyle] [] =
       (Inl (JsError couldNotGenerate), [ApiCall (generateContentRequest exParts)])
   \<and> \<not> jsIncludes couldNotGenerate ''I cannot draw that''
   \<and> \<not> jsIncludes couldNotGenerate ''text instead of an image''"
proof -
  have chatty: "callGeminiWithRetry exChatty exParts =
      (Inr exTextOnly, [ApiCall (generateContentRequest exParts)])"
    by (simp add: callGeminiWithRetry_def retry_returns exChatty_def)
  have "processGeminiResponse exTextOnly =
      Inl (JsError (respondedWithText (Some ''I cannot draw that'')))"
    by (simp add: processGeminiResponse_def imagePartFromResponse_def firstCandidateParts_def
        exTextOnly_def)
  then have "generateVibeBasedImage exChatty [exSubject] [exStyle] [] =
       (Inl (JsError couldNotGenerate), [ApiCall (generateContentRequest exParts)])"
    by (simp add: generate_from_retry [OF exParts_encoded] chatty rethrow_def errorMessageOf_def
        respondedWithText_recognised)
  moreover have "\<not> jsIncludes couldNotGenerate ''I cannot draw that''"
    and "\<not> jsIncludes couldNotGenerate ''text instead of an image''"
    by (simp_all add: couldNotGenerate_def)
  ultimately show ?thesis by (simp add: exTextOnly_def)
qed

section \<open>Properties of the slot orchestrator\<close>

subsection \<open>What the handlers change\<close>

lemma removeAt_split:
  "k < length xs \<Longrightarrow> xs = take k xs @ xs ! k # drop (Suc k) xs"
  by (rule id_take_nth_drop)

lemma removeAt_distinct:
  assumes "distinct (map f xs)" and "k < length xs"
  shows "distinct (map f (removeAt k xs))"
    and "f ` set (removeAt k xs) = f ` set xs - {f (xs ! k)}"
proof -
  from assms(1) have "distinct (map f (take k xs @ xs ! k # drop (Suc k) xs))"
    using removeAt_split [OF assms(2)] by simp
  then have d: "distinct (map f (take k xs) @ f (xs ! k) # map f (drop (Suc k) xs))"
    by simp
  then show "distinct (map f (removeAt k xs))"
    by (simp add: removeAt_def)
  from d have notin: "f (xs ! k) \<notin> f ` (set (take k xs) \<union> set (drop (Suc k) xs))"
    by auto
  have "f ` set xs = f ` set (take k xs @ xs ! k # drop (Suc k) xs)"
    using removeAt_split [OF assms(2)] by simp
  then have "f ` set xs =
      insert (f (xs ! k)) (f ` (set (take k xs) \<union> set (drop (Suc k) xs)))"
    by simp
  with notin show "f ` set (removeAt k xs) = f ` set xs - {f (xs ! k)}"
    by (simp add: removeAt_def)
qed

lemma removeAt_subset: "set (removeAt k xs) \<subseteq> set xs"
  by (auto simp: removeAt_def dest: in_set_takeD in_set_dropD)

lemma removeAt_others:
  "k < length xs \<Longrightarrow> set xs = insert (xs ! k) (set (removeAt k xs))"
proof -
  assume "k < length xs"
  then have "set xs = set (take k xs @ xs ! k # drop (Suc k) xs)"
    using removeAt_split [of k xs] by simp
  then show ?thesis by (simp add: removeAt_def)
qed

lemma settle_generatedImages:
  "generatedImages (settle st k ai) =
     arraySet (generatedImages st) (slot (inFlight st ! k))
       (slotResult (fst (generateVibeBasedImage ai (subjects (inFlight st ! k))
          (styles (inFlight st ! k)) (instructions (inFlight st ! k)))))"
  by (simp add: settle_def Let_def split: caller.splits)

lemma settle_inFlight: "inFlight (settle st k ai) = removeAt k (inFlight st)"
  by (simp add: settle_def Let_def split: caller.splits)

lemma settle_inputs:
  "uploadedImages (settle st k ai) = uploadedImages st"
  "inspirationImages (settle st k ai) = inspirationImages st"
  "userPrompt (settle st k ai) = userPrompt st"
  "generationCount (settle st k ai) = generationCount st"
  by (simp_all add: settle_def Let_def split: caller.splits)

lemma settle_appState:
  "appState (settle st k ai) =
     (case caller (inFlight st ! k) of
        Regeneration \<Rightarrow> appState st
      | Batch b \<Rightarrow>
          if list_ex (\<lambda>c'. caller c' = Batch b) (removeAt k (inFlight st)) then appState st
          else ResultsShown)"
  by (simp add: settle_def Let_def split: caller.splits)

lemma slotResult_status:
  "status (slotResult outcome) = (case outcome of Inl err \<Rightarrow> Error | Inr resultUrl \<Rightarrow> Done)"
  by (simp add: slotResult_def split: sum.splits)

lemma slotResult_terminal: "status (slotResult outcome) \<noteq> Pending"
  by (simp add: slotResult_status split: sum.splits)

lemma arraySet_in_range:
  "i < length xs \<Longrightarrow> arraySet xs i v = xs[i := Some v]"
  by (simp add: arraySet_def)

lemma regenerate_noop:
  "uploadedImages st = [] \<or> inspirationImages st = [] \<or> statusAt st index = Some Pending \<Longrightarrow>
   handleRegenerateSlot st index = st"
  by (auto simp: handleRegenerateSlot_def statusAt_def)

lemma regenerate_starts:
  "uploadedImages st \<noteq> [] \<Longrightarrow> inspirationImages st \<noteq> [] \<Longrightarrow> statusAt st index \<noteq> Some Pending \<Longrightarrow>
   handleRegenerateSlot st index =
     st\<lparr>generatedImages := arraySet (generatedImages st) index pendingImage,
        inFlight := inFlight st
          @ [\<lparr>caller = Regeneration, slot = index, subjects = uploadedImages st,
               styles = inspirationImages st, instructions = userPrompt st\<rparr>]\<rparr>"
  unfolding handleRegenerateSlot_def statusAt_def by (simp only: if_False simp_thms)

subsection \<open>The invariant of a run\<close>

lemma lifetime_start:
  assumes "inFlight st = []" and "uploadedImages st \<noteq> []" and "inspirationImages st \<noteq> []"
    and "0 < generationCount st"
  shows "lifetime (generationCount st) (batches st) (handleGenerateClick st)"
proof -
  let ?n = "generationCount st"
  let ?mk = "\<lambda>index. \<lparr>caller = Batch (batches st), slot = index,
      subjects = uploadedImages st, styles = inspirationImages st,
      instructions = userPrompt st\<rparr>"
  have st': "handleGenerateClick st =
      st\<lparr>appState := Generating, generatedImages := replicate ?n (Some pendingImage),
         inFlight := map ?mk [0 ..< ?n], batches := batches st + 1\<rparr>"
    using assms by (simp add: handleGenerateClick_def Let_def)
  have slots: "map slot (map ?mk [0 ..< ?n]) = [0 ..< ?n]"
    by (simp add: comp_def)
  have img: "slot ` set (map ?mk [0 ..< ?n]) = {0 ..< ?n}"
    by (metis slots set_map set_upt)
  have ex: "list_ex (\<lambda>c. caller c = Batch (batches st)) (map ?mk [0 ..< ?n])"
    using assms(4) by (auto simp: list_ex_iff)
  show ?thesis
    unfolding lifetime_def st'
    using assms(2,3) slots img ex
    by (simp add: pendingImage_def del: set_map map_map set_upt) auto
qed

lemma lifetime_settle:
  assumes inv: "lifetime n b st" and k: "k < length (inFlight st)"
  shows "lifetime n b (settle st k ai)"
proof -
  let ?c = "inFlight st ! k"
  let ?rest = "removeAt k (inFlight st)"
  let ?r = "slotResult (fst (generateVibeBasedImage ai (subjects ?c) (styles ?c) (instructions ?c)))"
  from inv have len: "length (generatedImages st) = n"
    and slots: "\<forall>i<n. \<exists>img. generatedImages st ! i = Some img
            \<and> (status img = Pending \<longleftrightarrow> i \<in> slot ` set (inFlight st))"
    and calls: "\<forall>c\<in>set (inFlight st). slot c < n \<and> (caller c = Batch b \<or> caller c = Regeneration)"
    and dist: "distinct (map slot (inFlight st))"
    and shown: "appState st = (if list_ex (\<lambda>c. caller c = Batch b) (inFlight st) then Generating
                       else ResultsShown)"
    and inputs: "uploadedImages st \<noteq> []" "inspirationImages st \<noteq> []"
    by (simp_all add: lifetime_def)
  from k have mem: "?c \<in> set (inFlight st)" by simp
  with calls have c: "slot ?c < n" "caller ?c = Batch b \<or> caller ?c = Regeneration" by auto
  have gi: "generatedImages (settle st k ai) = (generatedImages st)[slot ?c := Some ?r]"
    using c(1) len by (simp add: settle_generatedImages arraySet_in_range)
  have fl: "inFlight (settle st k ai) = ?rest" by (rule settle_inFlight)
  have dist': "distinct (map slot ?rest)"
    and img: "slot ` set ?rest = slot ` set (inFlight st) - {slot ?c}"
    using removeAt_distinct [OF dist k] by simp_all
  have sub: "set ?rest \<subseteq> set (inFlight st)" by (rule removeAt_subset)
  have all: "set (inFlight st) = insert ?c (set ?rest)" using k by (rule removeAt_others)
  have slots': "\<forall>i<n. \<exists>img. generatedImages (settle st k ai) ! i = Some img
            \<and> (status img = Pending \<longleftrightarrow> i \<in> slot ` set (inFlight (settle st k ai)))"
  proof (intro allI impI)
    fix i assume i: "i < n"
    show "\<exists>img. generatedImages (settle st k ai) ! i = Some img
            \<and> (status img = Pending \<longleftrightarrow> i \<in> slot ` set (inFlight (settle st k ai)))"
    proof (cases "i = slot ?c")
      case True
      then show ?thesis
        using i len by (simp add: gi fl img slotResult_terminal)
    next
      case False
      with slots i show ?thesis
        by (simp add: gi fl img)
    qed
  qed
  have calls': "\<forall>c\<in>set (inFlight (settle st k ai)).
      slot c < n \<and> (caller c = Batch b \<or> caller c = Regeneration)"
    using calls sub by (auto simp: fl)
  have shown': "appState (settle st k ai) =
      (if list_ex (\<lambda>c. caller c = Batch b) (inFlight (settle st k ai)) then Generating
       else ResultsShown)"
  proof (cases "caller ?c")
    case Regeneration
    then have "list_ex (\<lambda>c. caller c = Batch b) (inFlight st) =
        list_ex (\<lambda>c. caller c = Batch b) ?rest"
      unfolding list_ex_iff all by auto
    with Regeneration shown show ?thesis
      by (simp add: settle_appState fl)
  next
    case (Batch b')
    with c(2) have b': "b' = b" by simp
    have "list_ex (\<lambda>c. caller c = Batch b) (inFlight st)"
      using mem Batch b' by (auto simp: list_ex_iff)
    with shown have "appState st = Generating" by simp
    with Batch b' show ?thesis
      by (simp add: settle_appState fl)
  qed
  show ?thesis
    unfolding lifetime_def
    using inputs len slots' calls' dist' shown'
    by (simp add: settle_inputs gi) (simp add: fl)
qed

lemma lifetime_regenerate:
  assumes inv: "lifetime n b st" and index: "index < n"
  shows "lifetime n b (handleRegenerateSlot st index)"
proof (cases "statusAt st index = Some Pending")
  case True
  then show ?thesis using inv by (simp add: regenerate_noop)
next
  case False
  from inv have len: "length (generatedImages st) = n"
    and slots: "\<forall>i<n. \<exists>img. generatedImages st ! i = Some img
            \<and> (status img = Pending \<longleftrightarrow> i \<in> slot ` set (inFlight st))"
    and calls: "\<forall>c\<in>set (inFlight st). slot c < n \<and> (caller c = Batch b \<or> caller c = Regeneration)"
    and dist: "distinct (map slot (inFlight st))"
    and shown: "appState st = (if list_ex (\<lambda>c. caller c = Batch b) (inFlight st) then Generating
                       else ResultsShown)"
    and inputs: "uploadedImages st \<noteq> []" "inspirationImages st \<noteq> []"
    by (simp_all add: lifetime_def)
  let ?new = "\<lparr>caller = Regeneration, slot = index, subjects = uploadedImages st,
      styles = inspirationImages st, instructions = userPrompt st\<rparr>"
  have st': "handleRegenerateSlot st index =
      st\<lparr>generatedImages := (generatedImages st)[index := Some pendingImage],
         inFlight := inFlight st @ [?new]\<rparr>"
    using regenerate_starts [OF inputs False] index len by (simp add: arraySet_in_range)
  from slots index obtain img where img: "generatedImages st ! index = Some img"
    and pend: "status img = Pending \<longleftrightarrow> index \<in> slot ` set (inFlight st)"
    by blast
  from False img index len have "status img \<noteq> Pending"
    by (simp add: statusAt_def arrayGet_def)
  with pend have fresh: "index \<notin> slot ` set (inFlight st)" by simp
  have ex: "list_ex (\<lambda>c. caller c = Batch b) (inFlight st @ [?new]) =
      list_ex (\<lambda>c. caller c = Batch b) (inFlight st)"
    by (simp add: list_ex_iff)
  have slots': "\<forall>i<n. \<exists>img. (generatedImages st)[index := Some pendingImage] ! i = Some img
            \<and> (status img = Pending \<longleftrightarrow> i \<in> slot ` set (inFlight st @ [?new]))"
  proof (intro allI impI)
    fix i assume i: "i < n"
    show "\<exists>img. (generatedImages st)[index := Some pendingImage] ! i = Some img
            \<and> (status img = Pending \<longleftrightarrow> i \<in> slot ` set (inFlight st @ [?new]))"
    proof (cases "i = index")
      case True
      then show ?thesis using i len by (simp add: pendingImage_def)
    next
      case False
      with slots i show ?thesis by simp
    qed
  qed
  show ?thesis
    unfolding lifetime_def st'
    using inputs len slots' calls dist shown fresh index
    by (simp add: ex del: list_ex_append) 
qed

lemma lifetime_step:
  "lifetime n b st \<Longrightarrow> step st e = Some st' \<Longrightarrow> lifetime n b st'"
proof (cases e)
  case (Settle k ai)
  assume "lifetime n b st" "step st e = Some st'"
  with Settle show ?thesis
    by (auto simp: lifetime_settle split: if_splits)
next
  case (RegenerateSlot index)
  assume inv: "lifetime n b st" and "step st e = Some st'"
  with RegenerateSlot have "index < length (generatedImages st)"
    and "st' = handleRegenerateSlot st index"
    by (auto split: if_splits)
  moreover from inv have "length (generatedImages st) = n" by (simp add: lifetime_def)
  ultimately show ?thesis using inv by (simp add: lifetime_regenerate)
qed

lemma lifetime_run:
  "lifetime n b st \<Longrightarrow> run st es = Some st' \<Longrightarrow> lifetime n b st'"
proof (induction es arbitrary: st)
  case Nil
  then show ?case by simp
next
  case (Cons e es)
  from Cons.prems(2) obtain st1 where s: "step st e = Some st1" and r: "run st1 es = Some st'"
    by (auto split: option.splits)
  from lifetime_step [OF Cons.prems(1) s] r show ?case by (rule Cons.IH)
qed

lemma lifetime_slotMove:
  assumes inv: "lifetime n b st" and s: "step st e = Some st'" and i: "i < n"
  shows "slotMove e i st st'"
proof -
  from inv have len: "length (generatedImages st) = n"
    and slots: "\<forall>i<n. \<exists>img. generatedImages st ! i = Some img
            \<and> (status img = Pending \<longleftrightarrow> i \<in> slot ` set (inFlight st))"
    and calls: "\<forall>c\<in>set (inFlight st). slot c < n \<and> (caller c = Batch b \<or> caller c = Regeneration)"
    and inputs: "uploadedImages st \<noteq> []" "inspirationImages st \<noteq> []"
    by (simp_all add: lifetime_def)
  from slots i obtain img where img: "generatedImages st ! i = Some img"
    and pend: "status img = Pending \<longleftrightarrow> i \<in> slot ` set (inFlight st)"
    by blast
  have at: "statusAt st i = Some (status img)"
    using img i len by (simp add: statusAt_def arrayGet_def)
  show ?thesis
  proof (cases e)
    case (Settle k ai)
    with s have k: "k < length (inFlight st)" and st': "st' = settle st k ai"
      by (auto split: if_splits)
    let ?c = "inFlight st ! k"
    from k calls have c: "slot ?c < n" by simp
    have gi: "generatedImages st' =
        (generatedImages st)[slot ?c := Some (slotResult (fst (generateVibeBasedImage ai
          (subjects ?c) (styles ?c) (instructions ?c))))]"
      using c len by (simp add: st' settle_generatedImages arraySet_in_range)
    show ?thesis
    proof (cases "i = slot ?c")
      case False
      then show ?thesis using i len by (simp add: slotMove_def gi arrayGet_def)
    next
      case True
      with k have "i \<in> slot ` set (inFlight st)" by (metis imageI nth_mem)
      with pend at have "statusAt st i = Some Pending" by simp
      moreover have "statusAt st' i = Some Done \<or> statusAt st' i = Some Error"
        using True i len
        by (simp add: statusAt_def arrayGet_def gi slotResult_status split: sum.splits)
      ultimately show ?thesis using Settle by (simp add: slotMove_def)
    qed
  next
    case (RegenerateSlot index)
    with s have index: "index < length (generatedImages st)"
      and st': "st' = handleRegenerateSlot st index"
      by (auto split: if_splits)
    show ?thesis
    proof (cases "statusAt st index = Some Pending")
      case True
      then show ?thesis by (simp add: st' regenerate_noop slotMove_def)
    next
      case False
      have gi: "generatedImages st' = (generatedImages st)[index := Some pendingImage]"
        using regenerate_starts [OF inputs False] index by (simp add: st' arraySet_in_range)
      show ?thesis
      proof (cases "i = index")
        case False
        then show ?thesis using i len by (simp add: slotMove_def gi arrayGet_def)
      next
        case True
        with False at have "status img = Done \<or> status img = Error"
          by (cases "status img") simp_all
        with at have "statusAt st i = Some Done \<or> statusAt st i = Some Error" by simp
        moreover have "statusAt st' i = Some Pending"
          using True i len by (simp add: statusAt_def arrayGet_def gi pendingImage_def)
        ultimately show ?thesis using RegenerateSlot True by (simp add: slotMove_def)
      qed
    qed
  qed
qed

subsection \<open>Regeneration of one slot\<close>

lemma exFlaky_generates:
  "fst (generateVibeBasedImage exFlaky [exSubject] [exStyle] []) =
     Inr ''data:image/png;base64,CCCC''"
proof -
  have r: "isRetriableError (errorMessageOf (JsError ''503 Service Unavailable''))"
    by (simp add: isRetriableError_def errorMessageOf_def)
  have "callGeminiWithRetry exFlaky exParts =
      (Inr exResponse,
       [ApiCall (generateContentRequest exParts), Delay 1000,
        ApiCall (generateContentRequest exParts), Delay 2000,
        ApiCall (generateContentRequest exParts)])"
    using retry_first [of exFlaky exParts, OF _ r] retry_second [of exFlaky exParts, OF _ r]
      retry_returns [of 3 exFlaky exParts exResponse]
    by (simp add: exFlaky_def callGeminiWithRetry_def)
  then show ?thesis
    by (simp add: generate_from_retry [OF exParts_encoded] processGeminiResponse_def
        imagePartFromResponse_def firstCandidateParts_def exResponse_def template_def)
qed

lemma exDenied_fails:
  "fst (generateVibeBasedImage exDenied [exSubject] [exStyle] []) =
     Inl (JsError ''The AI model failed to generate an image. Details: API key not valid'')"
proof -
  have "callGeminiWithRetry exDenied exParts =
      (Inl (JsError ''API key not valid''), [ApiCall (generateContentRequest exParts)])"
    by (simp add: callGeminiWithRetry_def retry_gives_up exDenied_def isRetriableError_def
        errorMessageOf_def)
  then show ?thesis
    by (simp add: generate_from_retry [OF exParts_encoded] rethrow_def errorMessageOf_def
        failedToGenerate_def)
qed

lemma arraySet_frame:
  "index < length xs \<Longrightarrow> j \<noteq> index \<Longrightarrow> arrayGet (arraySet xs index v) j = arrayGet xs j"
  by (simp add: arraySet_def arrayGet_def)

text \<open>
  C5, as amended. For every state and every index within the slot collection: when the
  slot is pending, \<open>handleRegenerateSlot\<close> changes nothing; when there is no subject or
  no style, it changes nothing either, whatever the slot holds; when the slot is done or
  failed and there is at least one subject and one style, it sets that slot to pending and
  puts exactly one new call, for that slot and with the current inputs, in flight; in
  every case no other slot changes. When a regeneration call for the slot settles, its
  handler writes a done or failed value to that slot, leaves every other slot as it is,
  and the call is no longer in flight.
\<close>

theorem regenerate_one_slot:
  assumes index: "index < length (generatedImages st)"
  shows "(statusAt st index = Some Pending \<longrightarrow> handleRegenerateSlot st index = st)
    \<and> (uploadedImages st = [] \<or> inspirationImages st = [] \<longrightarrow>
         handleRegenerateSlot st index = st)
    \<and> (uploadedImages st \<noteq> [] \<and> inspirationImages st \<noteq> []
         \<and> (statusAt st index = Some Done \<or> statusAt st index = Some Error) \<longrightarrow>
         handleRegenerateSlot st index =
           st\<lparr>generatedImages :=
                (generatedImages st)[index := Some \<lparr>status = Pending, url = None, error = None\<rparr>],
              inFlight := inFlight st
                @ [\<lparr>caller = Regeneration, slot = index, subjects = uploadedImages st,
                     styles = inspirationImages st, instructions = userPrompt st\<rparr>]\<rparr>)
    \<and> (\<forall>j. j \<noteq> index \<longrightarrow>
          arrayGet (generatedImages (handleRegenerateSlot st index)) j =
            arrayGet (generatedImages st) j)
    \<and> (\<forall>k ai. k < length (inFlight st) \<and> caller (inFlight st ! k) = Regeneration
          \<and> slot (inFlight st ! k) = index \<longrightarrow>
          (\<exists>result. generatedImages (settle st k ai) = (generatedImages st)[index := Some result]
             \<and> (status result = Done \<or> status result = Error))
          \<and> (\<forall>j. j \<noteq> index \<longrightarrow>
                arrayGet (generatedImages (settle st k ai)) j = arrayGet (generatedImages st) j)
          \<and> inFlight (settle st k ai) = removeAt k (inFlight st))"
proof (intro conjI impI allI)
  assume "statusAt st index = Some Pending"
  then show "handleRegenerateSlot st index = st" by (simp add: regenerate_noop)
next
  assume "uploadedImages st = [] \<or> inspirationImages st = []"
  then show "handleRegenerateSlot st index = st" by (auto simp: handleRegenerateSlot_def)
next
  assume a: "uploadedImages st \<noteq> [] \<and> inspirationImages st \<noteq> []
         \<and> (statusAt st index = Some Done \<or> statusAt st index = Some Error)"
  then have "statusAt st index \<noteq> Some Pending" by auto
  with a index show "handleRegenerateSlot st index =
           st\<lparr>generatedImages :=
                (generatedImages st)[index := Some \<lparr>status = Pending, url = None, error = None\<rparr>],
              inFlight := inFlight st
                @ [\<lparr>caller = Regeneration, slot = index, subjects = uploadedImages st,
                     styles = inspirationImages st, instructions = userPrompt st\<rparr>]\<rparr>"
    by (simp add: regenerate_starts arraySet_in_range pendingImage_def)
next
  fix j assume "j \<noteq> index"
  with index show "arrayGet (generatedImages (handleRegenerateSlot st index)) j =
            arrayGet (generatedImages st) j"
    by (simp add: handleRegenerateSlot_def arraySet_frame)
next
  fix k ai
  assume c: "k < length (inFlight st) \<and> caller (inFlight st ! k) = Regeneration
          \<and> slot (inFlight st ! k) = index"
  let ?c = "inFlight st ! k"
  let ?r = "slotResult (fst (generateVibeBasedImage ai (subjects ?c) (styles ?c) (instructions ?c)))"
  have gi: "generatedImages (settle st k ai) = (generatedImages st)[index := Some ?r]"
    using c index by (simp add: settle_generatedImages arraySet_in_range)
  moreover have "status ?r = Done \<or> status ?r = Error"
    by (simp add: slotResult_status split: sum.splits)
  ultimately show "\<exists>result. generatedImages (settle st k ai) = (generatedImages st)[index := Some result]
             \<and> (status result = Done \<or> status result = Error)"
    by blast
  show "inFlight (settle st k ai) = removeAt k (inFlight st)" by (rule settle_inFlight)
  fix j assume "j \<noteq> index"
  then show "arrayGet (generatedImages (settle st k ai)) j = arrayGet (generatedImages st) j"
    by (simp add: gi arrayGet_def)
qed

theorem regenerate_one_slot_witness:
  "handleRegenerateSlot exShown 1 =
     exShown\<lparr>generatedImages :=
        [Some \<lparr>status = Done, url = Some ''data:image/png;base64,CCCC'', error = None\<rparr>,
         Some \<lparr>status = Pending, url = None, error = None\<rparr>],
       inFlight := [\<lparr>caller = Regeneration, slot = 1, subjects = [exSubject],
                     styles = [exStyle], instructions = []\<rparr>]\<rparr>
   \<and> generatedImages (settle (handleRegenerateSlot exShown 1) 0 exFlaky) =
       [Some \<lparr>status = Done, url = Some ''data:image/png;base64,CCCC'', error = None\<rparr>,
        Some \<lparr>status = Done, url = Some ''data:image/png;base64,CCCC'', error = None\<rparr>]"
proof -
  have s: "statusAt exShown 1 = Some Error"
    by (simp add: statusAt_def arrayGet_def exShown_def)
  have first: "handleRegenerateSlot exShown 1 =
     exShown\<lparr>generatedImages :=
        [Some \<lparr>status = Done, url = Some ''data:image/png;base64,CCCC'', error = None\<rparr>,
         Some \<lparr>status = Pending, url = None, error = None\<rparr>],
       inFlight := [\<lparr>caller = Regeneration, slot = 1, subjects = [exSubject],
                     styles = [exStyle], instructions = []\<rparr>]\<rparr>"
    using regenerate_one_slot [of 1 exShown] s by (simp add: exShown_def)
  have "generatedImages (settle (handleRegenerateSlot exShown 1) 0 exFlaky) =
       [Some \<lparr>status = Done, url = Some ''data:image/png;base64,CCCC'', error = None\<rparr>,
        Some \<lparr>status = Done, url = Some ''data:image/png;base64,CCCC'', error = None\<rparr>]"
    unfolding first
    by (simp add: settle_generatedImages exShown_def arraySet_def slotResult_def exFlaky_generates)
  with first show ?thesis by simp
qed

text \<open>
  C5 as stated fails in a state without subjects: the slot is done, yet the regeneration
  leaves it done and issues no call.
\<close>

theorem regenerate_one_slot_counterexample:
  "0 < length (generatedImages exNoSubjects) \<and> statusAt exNoSubjects 0 = Some Done
   \<and> handleRegenerateSlot exNoSubjects 0 = exNoSubjects
   \<and> statusAt (handleRegenerateSlot exNoSubjects 0) 0 = Some Done
   \<and> inFlight (handleRegenerateSlot exNoSubjects 0) = []"
  by (simp add: handleRegenerateSlot_def statusAt_def arrayGet_def exNoSubjects_def)

subsection \<open>Runs of a slot collection\<close>

lemma run_settles_only:
  "run st es = Some st' \<Longrightarrow> list_all isSettle es \<Longrightarrow> set (inFlight st') \<subseteq> set (inFlight st)"
proof (induction es arbitrary: st)
  case Nil
  then show ?case by simp
next
  case (Cons e es)
  from Cons.prems(2) obtain k ai where e: "e = Settle k ai"
    by (cases e) auto
  with Cons.prems(1) have r: "run (settle st k ai) es = Some st'"
    by (auto split: if_splits)
  from Cons.IH [OF r] Cons.prems(2)
  have "set (inFlight st') \<subseteq> set (inFlight (settle st k ai))" by simp
  also have "\<dots> \<subseteq> set (inFlight st)"
    by (simp add: settle_inFlight removeAt_subset)
  finally show ?case .
qed

lemma exReady_run: "run (handleGenerateClick exReady) exEvents = Some exRegenerating"
proof -
  have start: "handleGenerateClick exReady =
      exReady\<lparr>appState := Generating,
        generatedImages := [Some pendingImage, Some pendingImage],
        inFlight := [\<lparr>caller = Batch 0, slot = 0, subjects = [exSubject], styles = [exStyle],
                        instructions = []\<rparr>,
                     \<lparr>caller = Batch 0, slot = 1, subjects = [exSubject], styles = [exStyle],
                        instructions = []\<rparr>],
        batches := 1\<rparr>"
    by (simp add: handleGenerateClick_def exReady_def Let_def upt_rec numeral_2_eq_2)
  show ?thesis
    unfolding start exEvents_def
    by (simp add: settle_def Let_def removeAt_def arraySet_def arrayGet_def slotResult_def
        caughtMessage_def handleRegenerateSlot_def exReady_def pendingImage_def
        exFlaky_generates exDenied_fails exRegenerating_def)
qed

text \<open>
  C7, as amended. A click on generate in a state with subjects, styles, a count from 1 to
  8 and no call in flight creates exactly that many slots, all pending. After any run of
  that collection (calls settling, regenerations of its slots asked for) the collection
  still has that many slots, and so it has after any further event; and any further event
  moves a slot only from pending to done or error, when a call settles, or from done or
  error to pending, when the regeneration of that very slot is asked for.
\<close>

theorem slot_collection_lifecycle:
  assumes idle: "inFlight st0 = []"
    and inputs: "uploadedImages st0 \<noteq> []" "inspirationImages st0 \<noteq> []"
    and count: "1 \<le> generationCount st0" "generationCount st0 \<le> 8"
    and run: "run (handleGenerateClick st0) events = Some st"
  shows "generatedImages (handleGenerateClick st0) =
           replicate (generationCount st0) (Some \<lparr>status = Pending, url = None, error = None\<rparr>)
    \<and> length (generatedImages st) = generationCount st0
    \<and> (\<forall>e st'. step st e = Some st' \<longrightarrow>
          length (generatedImages st') = generationCount st0
          \<and> (\<forall>i<generationCount st0. slotMove e i st st'))"
proof -
  let ?n = "generationCount st0"
  let ?b = "batches st0"
  have start: "lifetime ?n ?b (handleGenerateClick st0)"
    using idle inputs count(1) by (intro lifetime_start) simp_all
  from lifetime_run [OF start run] have inv: "lifetime ?n ?b st" .
  have "generatedImages (handleGenerateClick st0) =
      replicate ?n (Some \<lparr>status = Pending, url = None, error = None\<rparr>)"
    using inputs by (simp add: handleGenerateClick_def Let_def pendingImage_def)
  moreover from inv have "length (generatedImages st) = ?n"
    by (simp add: lifetime_def)
  moreover have "length (generatedImages st') = ?n \<and> (\<forall>i<?n. slotMove e i st st')"
    if s: "step st e = Some st'" for e st'
  proof -
    from lifetime_step [OF inv s] have "length (generatedImages st') = ?n"
      by (simp add: lifetime_def)
    with lifetime_slotMove [OF inv s] show ?thesis by simp
  qed
  ultimately show ?thesis by blast
qed

theorem slot_collection_lifecycle_witness:
  "generatedImages (handleGenerateClick exReady) =
     [Some \<lparr>status = Pending, url = None, error = None\<rparr>,
      Some \<lparr>status = Pending, url = None, error = None\<rparr>]
   \<and> length (generatedImages exRegenerating) = 2
   \<and> slotMove (Settle 0 exFlaky) 0 exRegenerating (settle exRegenerating 0 exFlaky)"
proof -
  have s: "step exRegenerating (Settle 0 exFlaky) = Some (settle exRegenerating 0 exFlaky)"
    by (simp add: exRegenerating_def)
  have r: "replicate 2 (Some \<lparr>status = Pending, url = None, error = None\<rparr>) =
      [Some \<lparr>status = Pending, url = None, error = None\<rparr>,
       Some \<lparr>status = Pending, url = None, error = None\<rparr>]"
    by (simp add: numeral_2_eq_2)
  show ?thesis
    using slot_collection_lifecycle [of exReady exEvents exRegenerating, OF _ _ _ _ _ exReady_run]
      s r
    by (simp add: exReady_def)
qed

text \<open>
  C7 as stated fails for a collection created while a call of a discarded collection is
  still in flight: that call settles and writes its image to the second slot, then the
  batch's own call for the slot settles and moves the slot from done to error.
\<close>

theorem slot_collection_lifecycle_counterexample:
  "uploadedImages exRestarted \<noteq> [] \<and> inspirationImages exRestarted \<noteq> []
   \<and> generationCount exRestarted = 2
   \<and> run (handleGenerateClick exRestarted) [Settle 0 exFlaky] = Some exOverwritten
   \<and> step exOverwritten (Settle 1 exDenied) = Some (settle exOverwritten 1 exDenied)
   \<and> statusAt exOverwritten 1 = Some Done
   \<and> statusAt (settle exOverwritten 1 exDenied) 1 = Some Error
   \<and> \<not> slotMove (Settle 1 exDenied) 1 exOverwritten (settle exOverwritten 1 exDenied)"
proof -
  have restarted: "exRestarted =
     \<lparr>uploadedImages = [exSubject], inspirationImages = [exStyle], userPrompt = [],
      generatedImages = [], appState = PhotosUploaded, generationCount = 2,
      inFlight = [\<lparr>caller = Regeneration, slot = 1, subjects = [exSubject],
                    styles = [exStyle], instructions = []\<rparr>],
      batches = 1\<rparr>"
    by (simp add: exRestarted_def handleCropConfirm_def handleReset_def handleRegenerateSlot_def
        exShown_def arrayGet_def arraySet_def)
  have click: "handleGenerateClick exRestarted =
     \<lparr>uploadedImages = [exSubject], inspirationImages = [exStyle], userPrompt = [],
      generatedImages = [Some pendingImage, Some pendingImage],
      appState = Generating, generationCount = 2,
      inFlight = [\<lparr>caller = Regeneration, slot = 1, subjects = [exSubject],
                    styles = [exStyle], instructions = []\<rparr>,
                  \<lparr>caller = Batch 1, slot = 0, subjects = [exSubject], styles = [exStyle],
                    instructions = []\<rparr>,
                  \<lparr>caller = Batch 1, slot = 1, subjects = [exSubject], styles = [exStyle],
                    instructions = []\<rparr>],
      batches = 2\<rparr>"
    unfolding restarted
    by (simp add: handleGenerateClick_def Let_def upt_rec numeral_2_eq_2)
  have first: "run (handleGenerateClick exRestarted) [Settle 0 exFlaky] = Some exOverwritten"
    unfolding click
    by (simp add: settle_def Let_def removeAt_def arraySet_def slotResult_def pendingImage_def
        exFlaky_generates exOverwritten_def)
  have after: "generatedImages (settle exOverwritten 1 exDenied) =
      [Some \<lparr>status = Pending, url = None, error = None\<rparr>,
       Some \<lparr>status = Error, url = None,
             error = Some ''The AI model failed to generate an image. Details: API key not valid''\<rparr>]"
    by (simp add: settle_generatedImages exOverwritten_def arraySet_def slotResult_def
        caughtMessage_def exDenied_fails)
  have "statusAt exOverwritten 1 = Some Done"
    by (simp add: statusAt_def arrayGet_def exOverwritten_def)
  moreover have "statusAt (settle exOverwritten 1 exDenied) 1 = Some Error"
    unfolding statusAt_def arrayGet_def after by simp
  moreover have "arrayGet (generatedImages (settle exOverwritten 1 exDenied)) 1 \<noteq>
      arrayGet (generatedImages exOverwritten) 1"
    unfolding arrayGet_def after by (simp add: exOverwritten_def)
  ultimately have "\<not> slotMove (Settle 1 exDenied) 1 exOverwritten (settle exOverwritten 1 exDenied)"
    by (simp add: slotMove_def)
  moreover have "step exOverwritten (Settle 1 exDenied) = Some (settle exOverwritten 1 exDenied)"
    by (simp add: exOverwritten_def)
  ultimately show ?thesis
    using first \<open>statusAt exOverwritten 1 = Some Done\<close>
      \<open>statusAt (settle exOverwritten 1 exDenied) 1 = Some Error\<close>
    by (simp add: restarted)
qed

subsection \<open>Runs of a batch\<close>















end
